theory Spec2Isabelle
  imports Complex_Main "HOL-Library.AList" "HOL-Library.Multiset"
begin

section \<open>JavaScript numbers\<close>

text \<open>
  The program is TypeScript (\<^verbatim>\<open>src/lib/swiss-api.ts\<close>). Its numbers are modelled as exact
  reals: \<^verbatim>\<open>+\<close>, \<^verbatim>\<open>-\<close>, \<^verbatim>\<open>*\<close> are the field operations, and the three values a division
  by zero produces in JavaScript are kept apart in \<open>jsnum\<close>, because HOL's \<open>x / 0 = 0\<close>
  is not what the program computes. A value that is \<^verbatim>\<open>null\<close> or \<^verbatim>\<open>undefined\<close> is \<open>None\<close>.
  The rounding of doubles is not modelled; the concrete inputs evaluated below stay away
  from the boundary of every comparison and of every \<^verbatim>\<open>Math.round\<close> they meet.
\<close>

datatype jsnum = Num real | PosInf | NegInf | NaN

definition js_div :: "real \<Rightarrow> real \<Rightarrow> jsnum" where
  "js_div a b =
     (if b \<noteq> 0 then Num (a / b)
      else if 0 < a then PosInf
      else if a < 0 then NegInf
      else NaN)"

fun js_less :: "jsnum \<Rightarrow> jsnum \<Rightarrow> bool" where
  "js_less NaN b = False"
| "js_less a NaN = False"
| "js_less (Num a) (Num b) = (a < b)"
| "js_less (Num a) PosInf = True"
| "js_less (Num a) NegInf = False"
| "js_less PosInf b = False"
| "js_less NegInf NegInf = False"
| "js_less NegInf b = True"

fun js_le :: "jsnum \<Rightarrow> jsnum \<Rightarrow> bool" where
  "js_le NaN b = False"
| "js_le a NaN = False"
| "js_le (Num a) (Num b) = (a \<le> b)"
| "js_le (Num a) PosInf = True"
| "js_le (Num a) NegInf = False"
| "js_le PosInf PosInf = True"
| "js_le PosInf b = False"
| "js_le NegInf b = True"

text \<open>\<^verbatim>\<open>Math.round\<close> rounds to the nearest integer, a tie going up.\<close>

definition Math_round :: "real \<Rightarrow> real" where
  "Math_round x = of_int \<lfloor>x + 1 / 2\<rfloor>"

text \<open>\<^verbatim>\<open>v ? Number(v) : null\<close>: a missing or zero number reads as \<^verbatim>\<open>null\<close>.\<close>

definition numOrNull :: "real option \<Rightarrow> real option" where
  "numOrNull v = (case v of None \<Rightarrow> None | Some x \<Rightarrow> if x \<noteq> 0 then Some x else None)"

text \<open>\<^verbatim>\<open>Number(v) || 0\<close> and \<^verbatim>\<open>v ? Number(v) : 0\<close>: a missing number reads as zero.\<close>

definition numOrZero :: "real option \<Rightarrow> real" where
  "numOrZero v = (case v of None \<Rightarrow> 0 | Some x \<Rightarrow> x)"

text \<open>\<^verbatim>\<open>!v\<close> for \<^verbatim>\<open>v: number | null\<close>.\<close>

definition falsy :: "real option \<Rightarrow> bool" where
  "falsy v = (case v of None \<Rightarrow> True | Some x \<Rightarrow> x = 0)"

section \<open>Data model\<close>

record LatLng =
  lat :: real
  lng :: real

record SwissCoordinates =
  easting :: real
  northing :: real

text \<open>An identifying attribute of a feature is a number or a string.\<close>

datatype jskey = KNum real | KStr string

fun truthyKey :: "jskey option \<Rightarrow> bool" where
  "truthyKey None = False"
| "truthyKey (Some (KNum x)) = (x \<noteq> 0)"
| "truthyKey (Some (KStr s)) = (s \<noteq> [])"

text \<open>The attributes of one feature of the layer, as far as the program reads them.\<close>

record attrs =
  building_id :: "jskey option"
  objectid :: "jskey option"
  id_attr :: "jskey option"
  label :: "jskey option"
  flaeche :: "real option"
  stromertrag :: "real option"
  gstrahlung :: "real option"
  mstrahlung :: "real option"
  leistung :: "real option"
  eignung :: "string option"

definition emptyAttrs :: attrs where
  "emptyAttrs = \<lparr>building_id = None, objectid = None, id_attr = None, label = None,
     flaeche = None, stromertrag = None, gstrahlung = None, mstrahlung = None,
     leistung = None, eignung = None\<rparr>"

text \<open>
  The geometry of an identify result: a point \<^verbatim>\<open>{x, y}\<close>, a polygon with \<^verbatim>\<open>rings\<close>, or a
  multipoint with \<^verbatim>\<open>points\<close> (each an array \<^verbatim>\<open>[x, y]\<close>).
\<close>

datatype geom =
    GeomPoint real real
  | GeomRings "(real \<times> real) list list"
  | GeomPoints "(real \<times> real) list"

text \<open>
  One result of an identify request. Beside the attributes the program reads, a result
  carries \<open>json\<close>, the text \<^verbatim>\<open>JSON.stringify\<close> gives for its attributes object: that text
  depends on every attribute of the object, on explicit \<^verbatim>\<open>null\<close>s and on the order of the
  keys, none of which the record of the attributes read keeps.
\<close>

record identify_result =
  attributes :: "attrs option"
  geometry :: "geom option"
  json :: string

datatype rawdata = RawAttrs attrs | RawResults "identify_result list" | RawEmpty

record SolarRoofData =
  radiation :: real
  area :: real
  power_kW :: real
  suitability :: string
  stretrag :: "real option"
  raw :: rawdata

section \<open>The network\<close>

text \<open>
  \<^verbatim>\<open>fetch\<close> either rejects or resolves to a response with a status and a JSON body. The
  services are functions from the request's parameters to a response; every request
  issued is recorded, so that the number of network calls can be stated.
\<close>

datatype 'a response = NetworkFailure | Response nat 'a

definition response_ok :: "nat \<Rightarrow> bool" where
  "response_ok status = (200 \<le> status \<and> status \<le> 299)"

record network =
  reframe :: "real \<Rightarrow> real \<Rightarrow> SwissCoordinates response"
  reframeAlt :: "real \<Rightarrow> real \<Rightarrow> SwissCoordinates response"
  identifyPoint :: "real \<Rightarrow> real \<Rightarrow> identify_result list option response"
  identifyPolygon :: "(real \<times> real) list \<Rightarrow> identify_result list option response"

datatype request =
    ReqReframe real real
  | ReqReframeAlt real real
  | ReqIdentifyPoint real real
  | ReqIdentifyPolygon "(real \<times> real) list"

datatype error = FetchError | ConversionFailed nat | TypeError

subsection \<open>convertWGS84toLV95\<close>

definition convertWGS84toLV95 ::
  "network \<Rightarrow> real \<Rightarrow> real \<Rightarrow> (error + SwissCoordinates) \<times> request list" where
  "convertWGS84toLV95 net la lo =
     (case reframe net la lo of
        NetworkFailure \<Rightarrow> (Inl FetchError, [ReqReframe la lo])
      | Response status data \<Rightarrow>
          if \<not> response_ok status then
            (case reframeAlt net la lo of
               NetworkFailure \<Rightarrow> (Inl FetchError, [ReqReframe la lo, ReqReframeAlt la lo])
             | Response altStatus altData \<Rightarrow>
                 if \<not> response_ok altStatus
                 then (Inl (ConversionFailed status), [ReqReframe la lo, ReqReframeAlt la lo])
                 else (Inr altData, [ReqReframe la lo, ReqReframeAlt la lo]))
          else (Inr data, [ReqReframe la lo]))"

section \<open>Point in polygon\<close>

text \<open>
  \<^verbatim>\<open>for (let i = 0, j = vs.length - 1; i < vs.length; j = i++)\<close> walks the vertices with
  \<open>vj\<close> the vertex before \<open>vi\<close>, the last vertex first. The test of an edge is the
  source's expression, parenthesised as the source parenthesises it:
  \<^verbatim>\<open>yi > y !== yj > y && x < ((xj - xi) * (y - yi)) / (yj - yi + xi)\<close>.
\<close>

fun pointInPolygon_loop :: "LatLng \<Rightarrow> LatLng list \<Rightarrow> LatLng \<Rightarrow> bool \<Rightarrow> bool" where
  "pointInPolygon_loop point [] vj inside = inside"
| "pointInPolygon_loop point (vi # rest) vj inside =
     (let x = lng point; y = lat point;
          xi = lng vi; yi = lat vi;
          xj = lng vj; yj = lat vj;
          intersect = ((yi > y) \<noteq> (yj > y) \<and>
             js_less (Num x) (js_div ((xj - xi) * (y - yi)) (yj - yi + xi)))
      in pointInPolygon_loop point rest vi (if intersect then \<not> inside else inside))"

definition pointInPolygon :: "LatLng \<Rightarrow> LatLng list \<Rightarrow> bool" where
  "pointInPolygon point vs =
     (case vs of [] \<Rightarrow> False | _ \<Rightarrow> pointInPolygon_loop point vs (last vs) False)"

text \<open>The square of \<^verbatim>\<open>scripts/test_polygon_sampling.js\<close>.\<close>

definition lausanneSquare :: "LatLng list" where
  "lausanneSquare =
     [\<lparr>lat = 46.5205, lng = 6.631\<rparr>, \<lparr>lat = 46.5205, lng = 6.633\<rparr>,
      \<lparr>lat = 46.519, lng = 6.633\<rparr>, \<lparr>lat = 46.519, lng = 6.631\<rparr>]"

section \<open>getSolarData: candidate selection\<close>

text \<open>
  The key of the deduplication map:
  \<^verbatim>\<open>a.building_id || a.objectid || a.id || a.label || JSON.stringify(a)\<close>. A key is a
  number or a string, as the keys of a \<^verbatim>\<open>Map\<close> are compared; the last alternative is the
  text of the attributes object, \<^verbatim>\<open>{}\<close> for the empty object that stands in for missing
  attributes.
\<close>

definition firstTruthy :: "jskey option list \<Rightarrow> string \<Rightarrow> jskey" where
  "firstTruthy ks txt = (case List.find truthyKey ks of Some (Some k) \<Rightarrow> k | _ \<Rightarrow> KStr txt)"

definition attributesText :: "identify_result \<Rightarrow> string" where
  "attributesText r = (case attributes r of None \<Rightarrow> ''{}'' | Some a \<Rightarrow> json r)"

definition dedupKey :: "attrs \<Rightarrow> string \<Rightarrow> jskey" where
  "dedupKey a txt = firstTruthy [building_id a, objectid a, id_attr a, label a] txt"

text \<open>An entry of \<^verbatim>\<open>byKey\<close>, with the distance attached to it later.\<close>

record candidate =
  u_attrs :: attrs
  u_f :: real
  u_s :: real
  u_geom :: "geom option"
  u_dist :: jsnum

text \<open>
  \<^verbatim>\<open>byKey\<close> is a \<^verbatim>\<open>Map\<close>: it keeps its keys in the order of their first insertion, and
  setting an existing key replaces the value in place.
\<close>

definition dedup_step ::
  "identify_result \<Rightarrow> (jskey \<times> candidate) list \<Rightarrow> (jskey \<times> candidate) list" where
  "dedup_step r byKey =
     (let a = (case attributes r of None \<Rightarrow> emptyAttrs | Some a \<Rightarrow> a);
          key = dedupKey a (attributesText r);
          f = numOrZero (flaeche a);
          s = numOrZero (numOrNull (stromertrag a));
          entry = \<lparr>u_attrs = a, u_f = f, u_s = s, u_geom = geometry r, u_dist = PosInf\<rparr>
      in case map_of byKey key of
           None \<Rightarrow> AList.update key entry byKey
         | Some existing \<Rightarrow>
             if f > u_f existing \<or> (f = u_f existing \<and> s > u_s existing)
             then AList.update key entry byKey
             else byKey)"

definition dedup :: "identify_result list \<Rightarrow> candidate list" where
  "dedup results = map snd (fold dedup_step results [])"

definition computeCentroid :: "geom option \<Rightarrow> (real \<times> real) option" where
  "computeCentroid g =
     (case g of
        None \<Rightarrow> None
      | Some (GeomPoint x y) \<Rightarrow> Some (x, y)
      | Some (GeomRings rings) \<Rightarrow>
          (case rings of
             [] \<Rightarrow> None
           | ring # _ \<Rightarrow>
               if ring = [] then None
               else
                 (let sx = fold (\<lambda>p sx. sx + fst p) ring 0;
                      sy = fold (\<lambda>p sy. sy + snd p) ring 0
                  in Some (sx / real (length ring), sy / real (length ring))))
      | Some (GeomPoints pts) \<Rightarrow> (case pts of [] \<Rightarrow> None | p # _ \<Rightarrow> Some p))"

definition attachDist :: "real \<Rightarrow> real \<Rightarrow> candidate \<Rightarrow> candidate" where
  "attachDist e n u =
     (case computeCentroid (u_geom u) of
        Some (cx, cy) \<Rightarrow>
          (let dx = cx - e; dy = cy - n in u\<lparr>u_dist := Num (sqrt (dx * dx + dy * dy))\<rparr>)
      | None \<Rightarrow> u\<lparr>u_dist := PosInf\<rparr>)"

text \<open>
  The comparator of \<^verbatim>\<open>uniq.sort\<close>. \<^verbatim>\<open>Array.prototype.sort\<close> is stable; an insertion sort
  that puts an element before the first one it does not follow is the stable sort of a
  consistent comparator.
\<close>

definition compareUniq :: "candidate \<Rightarrow> candidate \<Rightarrow> real" where
  "compareUniq x y = (if u_f y \<noteq> u_f x then u_f y - u_f x else u_s y - u_s x)"

fun insertUniq :: "candidate \<Rightarrow> candidate list \<Rightarrow> candidate list" where
  "insertUniq x [] = [x]"
| "insertUniq x (y # ys) = (if compareUniq x y \<le> 0 then x # y # ys else y # insertUniq x ys)"

definition sortUniq :: "candidate list \<Rightarrow> candidate list" where
  "sortUniq us = foldr insertUniq us []"

text \<open>
  \<^verbatim>\<open>let nearest = uniq[0]; for (const u of uniq) if (u.dist < nearest.dist) nearest = u\<close>
\<close>

definition findNearest :: "candidate \<Rightarrow> candidate list \<Rightarrow> candidate" where
  "findNearest first us =
     fold (\<lambda>u nearest. if js_less (u_dist u) (u_dist nearest) then u else nearest) us first"

definition CHOOSE_NEARBY_METERS :: real where
  "CHOOSE_NEARBY_METERS = 20"

text \<open>Lines 226 to 238: sort, find the nearest, choose. \<open>None\<close> when \<open>uniq\<close> is empty.\<close>

definition chooseCandidate :: "candidate list \<Rightarrow> candidate option" where
  "chooseCandidate uniq =
     (case sortUniq uniq of
        [] \<Rightarrow> None
      | first # rest \<Rightarrow>
          (let nearest = findNearest first (first # rest)
           in if js_le (u_dist nearest) (Num CHOOSE_NEARBY_METERS) then Some nearest
              else Some first))"

definition chosenAttrs :: "real \<Rightarrow> real \<Rightarrow> identify_result list \<Rightarrow> attrs" where
  "chosenAttrs e n results =
     (case chooseCandidate (map (attachDist e n) (dedup results)) of
        Some chosenObj \<Rightarrow> u_attrs chosenObj
      | None \<Rightarrow> (case attributes (hd results) of None \<Rightarrow> emptyAttrs | Some a \<Rightarrow> a))"

section \<open>getSolarData: normalisation\<close>

definition MODULE_EFFICIENCY :: real where
  "MODULE_EFFICIENCY = 0.17"

definition SYSTEM_FACTOR :: real where
  "SYSTEM_FACTOR = 0.85"

definition COMBINED_FACTOR :: real where
  "COMBINED_FACTOR = MODULE_EFFICIENCY * SYSTEM_FACTOR"

definition plausible :: "real \<Rightarrow> bool" where
  "plausible c = (c > 200 \<and> c < 20000)"

text \<open>The four steps on \<^verbatim>\<open>annualKwhPerM2\<close>, each an \<^verbatim>\<open>if\<close> of the source.\<close>

definition tier1 :: "real \<Rightarrow> real option \<Rightarrow> real option" where
  "tier1 fl st =
     (if \<not> falsy st \<and> fl > 0 then Some (the st / (fl * COMBINED_FACTOR)) else None)"

definition tier2 :: "real option \<Rightarrow> real option \<Rightarrow> real option" where
  "tier2 ms annual =
     (if falsy annual \<and> \<not> falsy ms
      then (let cand = the ms * 12 in if plausible cand then Some cand else annual)
      else annual)"

definition tier3 :: "real option \<Rightarrow> real option \<Rightarrow> real option" where
  "tier3 gs annual =
     (if falsy annual \<and> \<not> falsy gs
      then (let g = the gs in
            case List.find plausible [g, g / 1000, g / 3.6] of
              Some c \<Rightarrow> Some c
            | None \<Rightarrow> annual)
      else annual)"

definition tier4 :: "real option \<Rightarrow> real option \<Rightarrow> real option \<Rightarrow> real option" where
  "tier4 gs ms annual =
     (if falsy annual
      then Some (if \<not> falsy gs then the gs else if \<not> falsy ms then the ms * 12 else 0)
      else annual)"

definition annualKwhPerM2 :: "attrs \<Rightarrow> real" where
  "annualKwhPerM2 a =
     (let fl = numOrZero (flaeche a);
          st = numOrNull (stromertrag a);
          gs = numOrNull (gstrahlung a);
          ms = numOrNull (mstrahlung a)
      in numOrZero (tier4 gs ms (tier3 gs (tier2 ms (tier1 fl st)))))"

definition Number_EPSILON :: real where
  "Number_EPSILON = 1 / 2 ^ 52"

definition solarRoofDataOf :: "attrs \<Rightarrow> SolarRoofData" where
  "solarRoofDataOf a =
     (let le = numOrZero (numOrNull (leistung a));
          powerKw = (if le > 1000 then le / 1000 else le)
      in \<lparr>radiation = Math_round (annualKwhPerM2 a),
          area = numOrZero (flaeche a),
          power_kW = Math_round ((powerKw + Number_EPSILON) * 100) / 100,
          suitability = (case eignung a of None \<Rightarrow> ''unknown''
                          | Some s \<Rightarrow> if s = [] then ''unknown'' else s),
          stretrag = numOrNull (stromertrag a),
          raw = RawAttrs a\<rparr>)"

subsection \<open>getSolarData\<close>

definition getSolarData ::
  "network \<Rightarrow> real \<Rightarrow> real \<Rightarrow> (error + SolarRoofData option) \<times> request list" where
  "getSolarData net e n =
     (case identifyPoint net e n of
        NetworkFailure \<Rightarrow> (Inl FetchError, [ReqIdentifyPoint e n])
      | Response status data \<Rightarrow>
          if \<not> response_ok status then (Inr None, [ReqIdentifyPoint e n])
          else
            (case data of
               None \<Rightarrow> (Inr None, [ReqIdentifyPoint e n])
             | Some results \<Rightarrow>
                 if results = [] then (Inr None, [ReqIdentifyPoint e n])
                 else (Inr (Some (solarRoofDataOf (chosenAttrs e n results))),
                       [ReqIdentifyPoint e n])))"

section \<open>getSolarDataForPolygon\<close>

text \<open>
  \<^verbatim>\<open>Promise.all\<close>: the results in order, or a failure. When several conversions fail, the
  program reports the one that fails first in time; the function below reports the first
  in the order of the vertices. Nothing proved below depends on which failure it is.
\<close>

fun Promise_all :: "(error + 'a) list \<Rightarrow> error + 'a list" where
  "Promise_all [] = Inr []"
| "Promise_all (Inl err # rest) = Inl err"
| "Promise_all (Inr x # rest) =
     (case Promise_all rest of Inl err \<Rightarrow> Inl err | Inr xs \<Rightarrow> Inr (x # xs))"

text \<open>
  The key of \<^verbatim>\<open>seen\<close>, in this function's own order:
  \<^verbatim>\<open>attrs.building_id || attrs.label || attrs.id || attrs.objectid || JSON.stringify(attrs)\<close>.
\<close>

definition seenKey :: "attrs \<Rightarrow> string \<Rightarrow> jskey" where
  "seenKey a txt = firstTruthy [building_id a, label a, id_attr a, objectid a] txt"

record totals =
  seen :: "jskey list"
  totalFlaeche :: real
  totalStromertrag :: real
  countStrom :: nat
  totalGstrahlung :: real
  countG :: nat

definition accumulate :: "identify_result \<Rightarrow> totals \<Rightarrow> totals" where
  "accumulate r t =
     (let a = (case attributes r of None \<Rightarrow> emptyAttrs | Some a \<Rightarrow> a);
          key = seenKey a (attributesText r)
      in if key \<in> set (seen t) then t
         else
           (let f = numOrZero (flaeche a);
                s = numOrNull (stromertrag a);
                g = numOrNull (gstrahlung a)
            in t\<lparr>seen := seen t @ [key],
                 totalFlaeche := totalFlaeche t + f,
                 totalStromertrag := (case s of None \<Rightarrow> totalStromertrag t
                                       | Some x \<Rightarrow> totalStromertrag t + x),
                 countStrom := (case s of None \<Rightarrow> countStrom t | Some x \<Rightarrow> countStrom t + 1),
                 totalGstrahlung := (case g of None \<Rightarrow> totalGstrahlung t
                                      | Some x \<Rightarrow> totalGstrahlung t + x),
                 countG := (case g of None \<Rightarrow> countG t | Some x \<Rightarrow> countG t + 1)\<rparr>))"

definition polygonAnnual :: "totals \<Rightarrow> real" where
  "polygonAnnual t =
     (let a1 = (if totalStromertrag t > 0 \<and> totalFlaeche t > 0
                then Some (totalStromertrag t / (totalFlaeche t * COMBINED_FACTOR)) else None);
          a2 = (if falsy a1 \<and> countG t > 0
                then (let avgG = totalGstrahlung t / real (countG t) in
                      case List.find plausible [avgG, avgG / 1000, avgG / 3.6] of
                        Some c \<Rightarrow> Some c
                      | None \<Rightarrow> a1)
                else a1);
          a3 = (if falsy a2
                then Some (if countG t > 0 then totalGstrahlung t / real (countG t) else 0)
                else a2)
      in numOrZero a3)"

definition polygonRoofData :: "identify_result list \<Rightarrow> SolarRoofData" where
  "polygonRoofData results =
     (let t = fold accumulate results
                \<lparr>seen = [], totalFlaeche = 0, totalStromertrag = 0, countStrom = 0,
                 totalGstrahlung = 0, countG = 0\<rparr>;
          avgStrom = (if countStrom t > 0
                      then Some (totalStromertrag t / real (countStrom t)) else None)
      in \<lparr>radiation = Math_round (polygonAnnual t),
          area = Math_round (totalFlaeche t),
          power_kW = 0,
          suitability =
            (case attributes (hd results) of
               None \<Rightarrow> ''unknown''
             | Some a \<Rightarrow> (case eignung a of None \<Rightarrow> ''unknown''
                          | Some s \<Rightarrow> if s = [] then ''unknown'' else s)),
          stretrag = numOrNull avgStrom,
          raw = RawResults results\<rparr>)"

text \<open>
  Every vertex is converted (\<^verbatim>\<open>polygonWgs84.map\<close> starts all the conversions), then one
  identify request carries the ring. A polygon that is \<^verbatim>\<open>null\<close> is \<open>None\<close>.
\<close>

definition getSolarDataForPolygon ::
  "network \<Rightarrow> LatLng list option \<Rightarrow> (error + SolarRoofData option) \<times> request list" where
  "getSolarDataForPolygon net polygonWgs84 =
     (case polygonWgs84 of
        None \<Rightarrow> (Inr None, [])
      | Some poly \<Rightarrow>
          if length poly < 3 then (Inr None, [])
          else
            (let convs = map (\<lambda>p. convertWGS84toLV95 net (lat p) (lng p)) poly;
                 calls = concat (map snd convs)
             in case Promise_all (map fst convs) of
                  Inl err \<Rightarrow> (Inl err, calls)
                | Inr lv95Points \<Rightarrow>
                    (let ring = map (\<lambda>pt. (easting pt, northing pt)) lv95Points;
                         reqs = calls @ [ReqIdentifyPolygon ring]
                     in case identifyPolygon net ring of
                          NetworkFailure \<Rightarrow> (Inl FetchError, reqs)
                        | Response status data \<Rightarrow>
                            if \<not> response_ok status then (Inr None, reqs)
                            else
                              (case data of
                                 None \<Rightarrow> (Inr None, reqs)
                               | Some results \<Rightarrow>
                                   if results = [] then (Inr None, reqs)
                                   else (Inr (Some (polygonRoofData results)), reqs)))))"

section \<open>The sample cache\<close>

text \<open>
  The cache key is the JSON text of the vertices, each coordinate through
  \<^verbatim>\<open>+p.lat.toFixed(6)\<close>; it is represented by the list of the rounded pairs.
  \<^verbatim>\<open>toFixed\<close> rounds the magnitude, a tie going away from zero.
\<close>

type_synonym cachekey = "(real \<times> real) list"

definition toFixed6 :: "real \<Rightarrow> real" where
  "toFixed6 x =
     (if x < 0 then - (of_int \<lfloor>- x * 10 ^ 6 + 1 / 2\<rfloor> / 10 ^ 6)
      else of_int \<lfloor>x * 10 ^ 6 + 1 / 2\<rfloor> / 10 ^ 6)"

definition cacheKey :: "LatLng list \<Rightarrow> cachekey" where
  "cacheKey poly = map (\<lambda>p. (toFixed6 (lat p), toFixed6 (lng p))) poly"

text \<open>
  The state the module keeps between calls: \<^verbatim>\<open>_polygonSampleCache\<close>,
  \<^verbatim>\<open>globalThis.__polygonSampleCache\<close> (absent until first written), the
  \<^verbatim>\<open>solar_polygon_cache\<close> item of \<^verbatim>\<open>window.localStorage\<close> (where there is one), and the
  requests issued so far.
\<close>

record store =
  polygonSampleCache :: "cachekey \<rightharpoonup> real"
  globalCache :: "(cachekey \<rightharpoonup> real) option"
  hasLocalStorage :: bool
  persisted :: "(cachekey \<rightharpoonup> real) option"
  netlog :: "request list"

text \<open>At module initialisation the stored item, when there is one, is read into the cache.\<close>

definition loadCacheFromLocalStorage :: "store \<Rightarrow> store" where
  "loadCacheFromLocalStorage st =
     (if hasLocalStorage st then
        (case persisted st of
           None \<Rightarrow> st
         | Some obj \<Rightarrow> st\<lparr>polygonSampleCache := polygonSampleCache st ++ obj\<rparr>)
      else st)"

definition saveCacheToLocalStorage :: "store \<Rightarrow> store" where
  "saveCacheToLocalStorage st =
     (if hasLocalStorage st then st\<lparr>persisted := Some (polygonSampleCache st)\<rparr> else st)"

definition clearPolygonSampleCache :: "store \<Rightarrow> store" where
  "clearPolygonSampleCache st =
     (let st1 = st\<lparr>polygonSampleCache := Map.empty\<rparr>
      in if hasLocalStorage st1 then st1\<lparr>persisted := None\<rparr> else st1)"

text \<open>The three writes that follow a computed result.\<close>

definition storeResult :: "cachekey \<Rightarrow> real \<Rightarrow> store \<Rightarrow> store" where
  "storeResult key result st =
     (let st1 = saveCacheToLocalStorage
                  (st\<lparr>polygonSampleCache := (polygonSampleCache st)(key \<mapsto> result)\<rparr>);
          g = (case globalCache st1 of None \<Rightarrow> Map.empty | Some m \<Rightarrow> m)
      in st1\<lparr>globalCache := Some (g(key \<mapsto> result))\<rparr>)"

section \<open>samplePolygonRadiation\<close>

text \<open>
  The bounding box. The loop starts from \<^verbatim>\<open>Infinity\<close> and \<^verbatim>\<open>-Infinity\<close>, which the first
  vertex always replaces, so the walk starts from the first vertex.
\<close>

record bbox =
  minLat :: real
  minLng :: real
  maxLat :: real
  maxLng :: real

definition bbox_step :: "LatLng \<Rightarrow> bbox \<Rightarrow> bbox" where
  "bbox_step p b =
     \<lparr>minLat = (if lat p < minLat b then lat p else minLat b),
      minLng = (if lng p < minLng b then lng p else minLng b),
      maxLat = (if lat p > maxLat b then lat p else maxLat b),
      maxLng = (if lng p > maxLng b then lng p else maxLng b)\<rparr>"

definition boundingBox :: "LatLng list \<Rightarrow> bbox" where
  "boundingBox poly =
     (case poly of
        [] \<Rightarrow> \<lparr>minLat = 0, minLng = 0, maxLat = 0, maxLng = 0\<rparr>
      | p # rest \<Rightarrow>
          fold bbox_step rest \<lparr>minLat = lat p, minLng = lng p, maxLat = lat p, maxLng = lng p\<rparr>)"

definition adaptiveGrid :: "nat \<Rightarrow> real \<Rightarrow> nat" where
  "adaptiveGrid gridSize approxAreaDeg =
     (let g1 = (if approxAreaDeg > 0.0005 then max gridSize 4 else gridSize);
          g2 = (if approxAreaDeg > 0.002 then max g1 6 else g1);
          g3 = (if approxAreaDeg > 0.01 then max g2 8 else g2)
      in g3)"

definition candidatePts :: "LatLng list \<Rightarrow> nat \<Rightarrow> LatLng list" where
  "candidatePts poly gridSize =
     (let b = boundingBox poly;
          latRange = maxLat b - minLat b;
          lngRange = maxLng b - minLng b;
          approxAreaDeg = latRange * lngRange;
          g = adaptiveGrid gridSize approxAreaDeg;
          latStep = (maxLat b - minLat b) / (real g + 1);
          lngStep = (maxLng b - minLng b) / (real g + 1)
      in filter (\<lambda>pt. pointInPolygon pt poly)
           (map (\<lambda>(i, j). \<lparr>lat = minLat b + latStep * real i, lng = minLng b + lngStep * real j\<rparr>)
              (List.product [1..<Suc g] [1..<Suc g])))"

text \<open>
  What both the centroid fallback and a worker do for one point inside their
  \<^verbatim>\<open>try\<close>: convert, identify, and keep the radiation when
  \<^verbatim>\<open>roof && roof.radiation && roof.radiation > 0\<close>. A failure of either call is caught.
\<close>

definition lookupRadiation :: "network \<Rightarrow> LatLng \<Rightarrow> real option \<times> request list" where
  "lookupRadiation net pt =
     (case convertWGS84toLV95 net (lat pt) (lng pt) of
        (Inl err, cs) \<Rightarrow> (None, cs)
      | (Inr lv95, cs) \<Rightarrow>
          (case getSolarData net (easting lv95) (northing lv95) of
             (Inl err, cs') \<Rightarrow> (None, cs @ cs')
           | (Inr None, cs') \<Rightarrow> (None, cs @ cs')
           | (Inr (Some roof), cs') \<Rightarrow>
               (if radiation roof \<noteq> 0 \<and> radiation roof > 0 then Some (radiation roof) else None,
                cs @ cs')))"

definition polygonCentroid :: "LatLng list \<Rightarrow> LatLng" where
  "polygonCentroid poly =
     fold (\<lambda>p acc. \<lparr>lat = lat acc + lat p / real (length poly),
                     lng = lng acc + lng p / real (length poly)\<rparr>)
       poly \<lparr>lat = 0, lng = 0\<rparr>"

definition centroidFallback ::
  "network \<Rightarrow> cachekey \<Rightarrow> LatLng list \<Rightarrow> store \<Rightarrow> (error + real option) \<times> store" where
  "centroidFallback net key poly st =
     (case lookupRadiation net (polygonCentroid poly) of
        (None, cs) \<Rightarrow> (Inr None, st\<lparr>netlog := netlog st @ cs\<rparr>)
      | (Some r, cs) \<Rightarrow>
          (let result = Math_round r
           in (Inr (Some result), storeResult key result (st\<lparr>netlog := netlog st @ cs\<rparr>))))"

subsection \<open>The workers\<close>

text \<open>
  The early-stop test of the \<^verbatim>\<open>finally\<close> block: at least four samples, a positive mean,
  and \<^verbatim>\<open>stddev / mean < 0.05\<close>.
\<close>

definition stableSamples :: "real list \<Rightarrow> bool" where
  "stableSamples xs =
     (length xs \<ge> 4 \<and>
      (let mean = fold (\<lambda>b a. a + b) xs 0 / real (length xs);
           variance = fold (\<lambda>b a. a + (b - mean) ^ 2) xs 0 / real (length xs);
           stddev = sqrt variance
       in mean > 0 \<and> stddev / mean < 0.05))"

text \<open>
  JavaScript runs one piece of code at a time; a worker gives way only at an \<^verbatim>\<open>await\<close>.
  From the moment the last call of a point returns, the worker runs without interruption
  through the push, the \<^verbatim>\<open>finally\<close> block and the head of the loop, up to the first
  \<^verbatim>\<open>await\<close> of its next point. So between two such pieces a worker either has a point in
  flight or has finished, and a run of the pool is the order in which the points in
  flight complete. That order is the network's; it is the schedule below. The requests
  of a point are recorded when the point completes.
\<close>

datatype worker = InFlight LatLng "LatLng list" | Finished

record session =
  samples :: "real list"
  done_count :: nat
  stopEarly :: bool
  workers :: "worker list"
  issued :: "request list"
  progress :: "(nat \<times> nat) list"
  total_pts :: nat

text \<open>The head of \<^verbatim>\<open>for (const pt of pts) { if (stopEarly) break; ...\<close>\<close>

definition startNext :: "bool \<Rightarrow> LatLng list \<Rightarrow> worker" where
  "startNext stop pts =
     (case pts of [] \<Rightarrow> Finished | pt # rest \<Rightarrow> if stop then Finished else InFlight pt rest)"

text \<open>The point in flight of worker \<open>k\<close> completes.\<close>

definition completePoint :: "network \<Rightarrow> nat \<Rightarrow> session \<Rightarrow> session" where
  "completePoint net k ss =
     (case workers ss ! k of
        Finished \<Rightarrow> ss
      | InFlight pt rest \<Rightarrow>
          (case lookupRadiation net pt of
             (r, cs) \<Rightarrow>
               (let samples' = (case r of None \<Rightarrow> samples ss | Some v \<Rightarrow> samples ss @ [v]);
                    done' = done_count ss + 1;
                    stop = stableSamples samples'
                in ss\<lparr>samples := samples',
                      done_count := done',
                      stopEarly := (stopEarly ss \<or> stop),
                      workers := (workers ss)
                        [k := if stop then Finished else startNext (stopEarly ss) rest],
                      issued := issued ss @ cs,
                      progress := progress ss @ [(done', total_pts ss)]\<rparr>)))"

fun firstInFlight :: "worker list \<Rightarrow> nat option" where
  "firstInFlight [] = None"
| "firstInFlight (InFlight pt rest # ws) = Some 0"
| "firstInFlight (Finished # ws) = map_option Suc (firstInFlight ws)"

fun isInFlight :: "worker \<Rightarrow> bool" where
  "isInFlight (InFlight pt rest) = True"
| "isInFlight Finished = False"

text \<open>
  The next point to complete: the worker the schedule names when that worker has a
  point in flight, the first worker with a point in flight otherwise.
\<close>

definition pickWorker :: "nat list \<Rightarrow> worker list \<Rightarrow> nat option" where
  "pickWorker sched ws =
     (case sched of
        [] \<Rightarrow> firstInFlight ws
      | k # _ \<Rightarrow> if k < length ws \<and> isInFlight (ws ! k) then Some k else firstInFlight ws)"

fun remaining :: "worker \<Rightarrow> nat" where
  "remaining (InFlight pt rest) = Suc (length rest)"
| "remaining Finished = 0"

lemma firstInFlight_Some:
  "firstInFlight ws = Some k \<Longrightarrow> k < length ws \<and> isInFlight (ws ! k)"
proof (induction ws arbitrary: k rule: firstInFlight.induct)
  case 1
  then show ?case by simp
next
  case (2 pt rest ws)
  then show ?case by simp
next
  case (3 ws)
  then show ?case by (cases "firstInFlight ws") auto
qed

lemma pickWorker_Some:
  "pickWorker sched ws = Some k \<Longrightarrow> k < length ws \<and> isInFlight (ws ! k)"
  by (auto simp: pickWorker_def split: list.splits if_splits dest: firstInFlight_Some)

lemma remaining_startNext: "remaining (startNext stop rest) \<le> length rest"
  by (simp add: startNext_def split: list.splits)

lemma completePoint_decreases:
  assumes "k < length (workers ss)" "isInFlight (workers ss ! k)"
  shows "sum_list (map remaining (workers (completePoint net k ss)))
       < sum_list (map remaining (workers ss))"
proof -
  obtain pt rest where w: "workers ss ! k = InFlight pt rest"
    using assms(2) by (cases "workers ss ! k") auto
  obtain r cs where l: "lookupRadiation net pt = (r, cs)"
    by (cases "lookupRadiation net pt")
  define w' where "w' = (if stableSamples (case r of None \<Rightarrow> samples ss | Some v \<Rightarrow> samples ss @ [v])
      then Finished else startNext (stopEarly ss) rest)"
  have ws: "workers (completePoint net k ss) = (workers ss)[k := w']"
    by (simp add: completePoint_def w l w'_def Let_def)
  have small: "remaining w' < remaining (workers ss ! k)"
    using remaining_startNext [of "stopEarly ss" rest] by (simp add: w'_def w le_imp_less_Suc)
  have "map remaining ((workers ss)[k := w']) = (map remaining (workers ss))[k := remaining w']"
    by (simp add: map_update)
  moreover have "sum_list ((map remaining (workers ss))[k := remaining w'])
      = sum_list (map remaining (workers ss)) + remaining w' - (map remaining (workers ss)) ! k"
    using assms(1) by (simp add: sum_list_update)
  moreover have "(map remaining (workers ss)) ! k \<le> sum_list (map remaining (workers ss))"
    using assms(1) by (simp add: member_le_sum_list)
  ultimately show ?thesis using small assms(1) unfolding ws by simp
qed

function runWorkers :: "network \<Rightarrow> nat list \<Rightarrow> session \<Rightarrow> session" where
  "runWorkers net sched ss =
     (case pickWorker sched (workers ss) of
        None \<Rightarrow> ss
      | Some k \<Rightarrow> runWorkers net (tl sched) (completePoint net k ss))"
  by pat_completeness auto
termination runWorkers
proof (relation "measure (\<lambda>(net, sched, ss). sum_list (map remaining (workers ss)))")
  show "wf (measure (\<lambda>(net, sched, ss). sum_list (map remaining (workers ss))))"
    by simp
next
  fix net :: network and sched :: "nat list" and ss :: session and k :: nat
  assume "pickWorker sched (workers ss) = Some k"
  then have "k < length (workers ss) \<and> isInFlight (workers ss ! k)"
    by (rule pickWorker_Some)
  then show "((net, tl sched, completePoint net k ss), (net, sched, ss))
      \<in> measure (\<lambda>(net, sched, ss). sum_list (map remaining (workers ss)))"
    using completePoint_decreases [of k ss net] by simp
qed

text \<open>\<^verbatim>\<open>groups[i % concurrency].push(candidatePts[i])\<close>\<close>

definition groups :: "nat \<Rightarrow> LatLng list \<Rightarrow> LatLng list list" where
  "groups concurrency pts =
     map (\<lambda>k. map (\<lambda>i. pts ! i) (filter (\<lambda>i. i mod concurrency = k) [0..<length pts]))
       [0..<concurrency]"

text \<open>Every worker runs to its first \<^verbatim>\<open>await\<close> before any call returns.\<close>

definition initSession :: "nat \<Rightarrow> LatLng list \<Rightarrow> session" where
  "initSession concurrency pts =
     \<lparr>samples = [], done_count = 0, stopEarly = False,
      workers = map (startNext False) (groups concurrency pts),
      issued = [], progress = [], total_pts = length pts\<rparr>"

text \<open>
  \<open>samplePolygonRadiation\<close> takes the services, the schedule of the completions, the state
  of the module, the polygon, \<^verbatim>\<open>gridSize\<close> (3 by default) and \<^verbatim>\<open>concurrency\<close> (4 by
  default), and returns its result with the new state. With \<^verbatim>\<open>concurrency\<close> zero and a
  candidate point, \<^verbatim>\<open>groups[i % concurrency]\<close> is \<^verbatim>\<open>undefined\<close> and the \<^verbatim>\<open>push\<close> throws.
\<close>

definition samplePolygonRadiation ::
  "network \<Rightarrow> nat list \<Rightarrow> store \<Rightarrow> LatLng list option \<Rightarrow> nat \<Rightarrow> nat
     \<Rightarrow> (error + real option) \<times> store" where
  "samplePolygonRadiation net sched st polygonWgs84 gridSize concurrency =
     (case polygonWgs84 of
        None \<Rightarrow> (Inr None, st)
      | Some poly \<Rightarrow>
          if length poly < 3 then (Inr None, st)
          else
            (let key = cacheKey poly
             in case polygonSampleCache st key of
                  Some v \<Rightarrow> (Inr (numOrNull (Some v)), st)
                | None \<Rightarrow>
                    (case (case globalCache st of None \<Rightarrow> None | Some g \<Rightarrow> g key) of
                       Some val \<Rightarrow>
                         (Inr (Some val),
                          st\<lparr>polygonSampleCache := (polygonSampleCache st)(key \<mapsto> val)\<rparr>)
                     | None \<Rightarrow>
                         (let pts = candidatePts poly gridSize
                          in if pts = [] then centroidFallback net key poly st
                             else if concurrency = 0 then (Inl TypeError, st)
                             else
                               (let fin = runWorkers net sched (initSession concurrency pts);
                                    st1 = st\<lparr>netlog := netlog st @ issued fin\<rparr>
                                in if samples fin = [] then (Inr None, st1)
                                   else
                                     (let sum = fold (\<lambda>b a. a + b) (samples fin) 0;
                                          result = Math_round (sum / real (length (samples fin)))
                                      in (Inr (Some result), storeResult key result st1)))))))"

section \<open>getSolarDataForPolygonWithSampling\<close>




section \<open>Example inputs\<close>

text \<open>The attribute sets of \<^verbatim>\<open>scripts/check_normalization.js\<close>.\<close>

definition sampleAttrs :: attrs where
  "sampleAttrs = emptyAttrs\<lparr>flaeche := Some 35.2531614459, stromertrag := Some 4862,
      gstrahlung := Some 30388, mstrahlung := Some 862\<rparr>"

definition edge1 :: attrs where
  "edge1 = emptyAttrs\<lparr>gstrahlung := Some 3000000, flaeche := Some 0\<rparr>"

text \<open>A service that answers every identify request with status 500, and one that finds no roof.\<close>

definition serverErrorNet :: network where
  "serverErrorNet =
     \<lparr>reframe = (\<lambda>la lo. NetworkFailure), reframeAlt = (\<lambda>la lo. NetworkFailure),
      identifyPoint = (\<lambda>e n. Response 500 None),
      identifyPolygon = (\<lambda>ring. NetworkFailure)\<rparr>"

definition noRoofNet :: network where
  "noRoofNet =
     \<lparr>reframe = (\<lambda>la lo. NetworkFailure), reframeAlt = (\<lambda>la lo. NetworkFailure),
      identifyPoint = (\<lambda>e n. Response 200 (Some [])),
      identifyPolygon = (\<lambda>ring. NetworkFailure)\<rparr>"

text \<open>
  Two roofs around the query point (2538000, 1152000): A of area 50 at distance 5, B of
  area 80 at distance 30.
\<close>

definition attrsA :: attrs where
  "attrsA = emptyAttrs\<lparr>building_id := Some (KNum 1), flaeche := Some 50\<rparr>"

definition attrsB :: attrs where
  "attrsB = emptyAttrs\<lparr>building_id := Some (KNum 2), flaeche := Some 80\<rparr>"

definition resultA :: identify_result where
  \<open>resultA =
     \<lparr>attributes = Some attrsA, geometry = Some (GeomPoint 2538003 1152004),
      json = ''{"building_id":1,"flaeche":50}''\<rparr>\<close>

definition resultB :: identify_result where
  \<open>resultB =
     \<lparr>attributes = Some attrsB, geometry = Some (GeomPoint 2538018 1152024),
      json = ''{"building_id":2,"flaeche":80}''\<rparr>\<close>

definition twoRoofs :: "identify_result list" where
  "twoRoofs = [resultA, resultB]"

text \<open>
  A roof outline near the point (0, 0), all of whose nine grid points pass
  \<open>pointInPolygon\<close>, and a service whose roofs give the sample stream 1000, 1010, 995,
  1005 at the first four grid points and 1002 anywhere else.
\<close>

definition slantedRoof :: "LatLng list" where
  "slantedRoof =
     [\<lparr>lat = 0.008, lng = - 0.01\<rparr>, \<lparr>lat = 0.008, lng = 0.004\<rparr>,
      \<lparr>lat = 0.02, lng = 0.01\<rparr>, \<lparr>lat = 0.02, lng = - 0.006\<rparr>]"

definition gridValue :: "real \<Rightarrow> real \<Rightarrow> real" where
  "gridValue e n =
     (if n = 0.011 \<and> e = - 0.005 then 1000
      else if n = 0.011 \<and> e = 0 then 1010
      else if n = 0.011 \<and> e = 0.005 then 995
      else if n = 0.014 \<and> e = - 0.005 then 1005
      else 1002)"

definition gridJson :: "real \<Rightarrow> real \<Rightarrow> string" where
  \<open>gridJson e n =
     (if n = 0.011 \<and> e = - 0.005 then ''{"gstrahlung":1000}''
      else if n = 0.011 \<and> e = 0 then ''{"gstrahlung":1010}''
      else if n = 0.011 \<and> e = 0.005 then ''{"gstrahlung":995}''
      else if n = 0.014 \<and> e = - 0.005 then ''{"gstrahlung":1005}''
      else ''{"gstrahlung":1002}'')\<close>

definition gridNet :: network where
  "gridNet =
     \<lparr>reframe = (\<lambda>la lo. Response 200 \<lparr>easting = lo, northing = la\<rparr>),
      reframeAlt = (\<lambda>la lo. NetworkFailure),
      identifyPoint = (\<lambda>e n. Response 200
         (Some [\<lparr>attributes = Some (emptyAttrs\<lparr>gstrahlung := Some (gridValue e n)\<rparr>),
                 geometry = None, json = gridJson e n\<rparr>])),
      identifyPolygon = (\<lambda>ring. NetworkFailure)\<rparr>"

text \<open>Four workers on the nine grid points, after the first points of workers 0, 1 and 2.\<close>

definition threeDone :: session where
  "threeDone =
     completePoint gridNet 2 (completePoint gridNet 1
       (completePoint gridNet 0 (initSession 4 (candidatePts slantedRoof 3))))"

text \<open>
  A fresh browser session, and a service with one roof under every point (the sample
  attributes) and one roof under every polygon.
\<close>

definition emptyStore :: store where
  "emptyStore =
     \<lparr>polygonSampleCache = Map.empty, globalCache = None, hasLocalStorage = True,
      persisted = None, netlog = []\<rparr>"

definition areaAttrs :: attrs where
  "areaAttrs = emptyAttrs\<lparr>flaeche := Some 120, gstrahlung := Some 1100\<rparr>"

definition sampleResult :: identify_result where
  \<open>sampleResult =
     \<lparr>attributes = Some sampleAttrs, geometry = None,
      json = ''{"gstrahlung":30388,"mstrahlung":862,"flaeche":35.2531614459,"stromertrag":4862}''\<rparr>\<close>

definition areaResult :: identify_result where
  \<open>areaResult =
     \<lparr>attributes = Some areaAttrs, geometry = None,
      json = ''{"flaeche":120,"gstrahlung":1100}''\<rparr>\<close>

definition roofNet :: network where
  "roofNet =
     \<lparr>reframe = (\<lambda>la lo. Response 200 \<lparr>easting = 2538000, northing = 1152000\<rparr>),
      reframeAlt = (\<lambda>la lo. NetworkFailure),
      identifyPoint = (\<lambda>e n. Response 200 (Some [sampleResult])),
      identifyPolygon = (\<lambda>ring. Response 200 (Some [areaResult]))\<rparr>"


definition twoPts :: "LatLng list" where
  "twoPts = [\<lparr>lat = 46.5205, lng = 6.631\<rparr>, \<lparr>lat = 46.519, lng = 6.633\<rparr>]"

text \<open>The state after a first sampling of the square, and after clearing the cache then.\<close>

definition afterFirst :: store where
  "afterFirst = snd (samplePolygonRadiation roofNet [] emptyStore (Some lausanneSquare) 3 4)"

definition afterClear :: store where
  "afterClear = clearPolygonSampleCache afterFirst"

section \<open>Predicates of the proofs\<close>

text \<open>
  \<open>notAfter x y\<close>: the comparator does not put \<open>y\<close> before \<open>x\<close>. \<open>headFirst\<close>: the head of a
  list is not after any other element.
\<close>

definition notAfter :: "candidate \<Rightarrow> candidate \<Rightarrow> bool" where
  "notAfter x y = (u_f y < u_f x \<or> (u_f y = u_f x \<and> u_s y \<le> u_s x))"

fun headFirst :: "candidate list \<Rightarrow> bool" where
  "headFirst [] = True"
| "headFirst (x # xs) = (\<forall>y\<in>set xs. notAfter x y)"

text \<open>A distance the program attaches is a number or \<^verbatim>\<open>Infinity\<close>.\<close>

definition ordinary :: "jsnum \<Rightarrow> bool" where
  "ordinary d = (case d of Num x \<Rightarrow> True | PosInf \<Rightarrow> True | _ \<Rightarrow> False)"

text \<open>The sample the point in flight of a worker adds when it completes, if any.\<close>

definition inFlightSample :: "network \<Rightarrow> worker \<Rightarrow> real list" where
  "inFlightSample net w =
     (case w of
        Finished \<Rightarrow> []
      | InFlight pt rest \<Rightarrow> (case fst (lookupRadiation net pt) of None \<Rightarrow> [] | Some v \<Rightarrow> [v]))"

section \<open>Auxiliary lemmas\<close>

subsection \<open>Rounding and the normaliser\<close>

lemma Math_round_nonneg: "0 \<le> x \<Longrightarrow> 0 \<le> Math_round x"
  unfolding Math_round_def by simp

lemma Math_round_near: "\<bar>Math_round x - x\<bar> \<le> 1 / 2"
  unfolding Math_round_def by linarith

lemma radiation_solarRoofDataOf:
  "radiation (solarRoofDataOf a) = Math_round (annualKwhPerM2 a)"
  by (simp add: solarRoofDataOf_def Let_def)

lemma annualKwhPerM2_nonneg:
  assumes "\<forall>x. stromertrag a = Some x \<longrightarrow> 0 \<le> x"
      and "\<forall>x. gstrahlung a = Some x \<longrightarrow> 0 \<le> x"
      and "\<forall>x. mstrahlung a = Some x \<longrightarrow> 0 \<le> x"
  shows "0 \<le> annualKwhPerM2 a"
proof -
  let ?fl = "numOrZero (flaeche a)"
  let ?st = "numOrNull (stromertrag a)"
  let ?gs = "numOrNull (gstrahlung a)"
  let ?ms = "numOrNull (mstrahlung a)"
  have st: "\<And>x. ?st = Some x \<Longrightarrow> 0 \<le> x"
    using assms(1) by (auto simp: numOrNull_def split: option.splits if_splits)
  have gs: "\<And>x. ?gs = Some x \<Longrightarrow> 0 \<le> x"
    using assms(2) by (auto simp: numOrNull_def split: option.splits if_splits)
  have ms: "\<And>x. ?ms = Some x \<Longrightarrow> 0 \<le> x"
    using assms(3) by (auto simp: numOrNull_def split: option.splits if_splits)
  have t1: "\<And>x. tier1 ?fl ?st = Some x \<Longrightarrow> 0 \<le> x"
    using st by (auto simp: tier1_def falsy_def COMBINED_FACTOR_def MODULE_EFFICIENCY_def
        SYSTEM_FACTOR_def split: if_splits option.splits)
  have t2: "\<And>x. tier2 ?ms (tier1 ?fl ?st) = Some x \<Longrightarrow> 0 \<le> x"
    using t1 by (auto simp: tier2_def plausible_def Let_def split: if_splits)
  have t3: "\<And>x. tier3 ?gs (tier2 ?ms (tier1 ?fl ?st)) = Some x \<Longrightarrow> 0 \<le> x"
    using t2 by (auto simp: tier3_def plausible_def Let_def split: if_splits option.splits)
  have t4: "\<And>x. tier4 ?gs ?ms (tier3 ?gs (tier2 ?ms (tier1 ?fl ?st))) = Some x \<Longrightarrow> 0 \<le> x"
    using t3 gs ms by (auto simp: tier4_def falsy_def split: if_splits option.splits)
  show ?thesis
    unfolding annualKwhPerM2_def Let_def using t4
    by (cases "tier4 ?gs ?ms (tier3 ?gs (tier2 ?ms (tier1 ?fl ?st)))") (simp_all add: numOrZero_def)
qed

lemma annualKwhPerM2_sampleAttrs:
  "annualKwhPerM2 sampleAttrs = 4862 / (35.2531614459 * 0.1445)"
  by (simp add: annualKwhPerM2_def sampleAttrs_def emptyAttrs_def numOrZero_def numOrNull_def
      tier1_def tier2_def tier3_def tier4_def falsy_def COMBINED_FACTOR_def
      MODULE_EFFICIENCY_def SYSTEM_FACTOR_def)

lemma radiation_sampleAttrs: "radiation (solarRoofDataOf sampleAttrs) = 954"
  by (simp add: radiation_solarRoofDataOf annualKwhPerM2_sampleAttrs Math_round_def floor_eq_iff)

lemma tier1_radiation:
  assumes "stromertrag a = Some p" "p \<noteq> 0" "flaeche a = Some fl" "0 < fl"
  shows "radiation (solarRoofDataOf a) = Math_round (p / (fl * 0.1445))"
  using assms
  by (simp add: solarRoofDataOf_def annualKwhPerM2_def numOrZero_def numOrNull_def
      tier1_def tier2_def tier3_def tier4_def falsy_def COMBINED_FACTOR_def
      MODULE_EFFICIENCY_def SYSTEM_FACTOR_def Let_def)

subsection \<open>Sorting and the nearest candidate\<close>

lemma set_insertUniq: "set (insertUniq x ys) = insert x (set ys)"
  by (induction ys) auto

lemma set_sortUniq: "set (sortUniq us) = set us"
  unfolding sortUniq_def by (induction us) (simp_all add: set_insertUniq)

lemma compareUniq_le: "(compareUniq x y \<le> 0) = notAfter x y"
  unfolding compareUniq_def notAfter_def by auto

lemma notAfter_total: "notAfter x y \<or> notAfter y x"
  unfolding notAfter_def by auto

lemma headFirst_insertUniq: "headFirst ys \<Longrightarrow> headFirst (insertUniq x ys)"
proof (cases ys)
  case Nil
  then show ?thesis by simp
next
  case (Cons y ys')
  assume h: "headFirst ys"
  show ?thesis
  proof (cases "compareUniq x y \<le> 0")
    case True
    then have xy: "notAfter x y" by (simp add: compareUniq_le)
    with h Cons have "\<forall>z\<in>set (y # ys'). notAfter x z"
      by (auto simp: notAfter_def)
    with True Cons show ?thesis by simp
  next
    case False
    then have "notAfter y x" using notAfter_total [of x y] by (simp add: compareUniq_le)
    with h Cons False show ?thesis by (simp add: set_insertUniq)
  qed
qed

lemma headFirst_sortUniq: "headFirst (sortUniq us)"
  unfolding sortUniq_def by (induction us) (simp_all add: headFirst_insertUniq)

lemma sortUniq_first:
  assumes "sortUniq us = first # rest"
  shows "first \<in> set us \<and> (\<forall>u\<in>set us. notAfter first u)"
proof -
  have s: "set us = insert first (set rest)"
    using set_sortUniq [of us] assms by simp
  have "\<forall>y\<in>set rest. notAfter first y"
    using headFirst_sortUniq [of us] assms by simp
  moreover have "notAfter first first" by (simp add: notAfter_def)
  ultimately show ?thesis using s by auto
qed

lemma ordinary_attachDist: "ordinary (u_dist (attachDist e n u))"
  by (simp add: attachDist_def ordinary_def Let_def split: option.splits prod.splits)

lemma js_less_trans_ord:
  "ordinary a \<Longrightarrow> ordinary b \<Longrightarrow> ordinary c \<Longrightarrow> \<not> js_less a b \<Longrightarrow> \<not> js_less b c
     \<Longrightarrow> \<not> js_less a c"
  by (cases a; cases b; cases c) (auto simp: ordinary_def)

lemma js_le_mono_ord:
  "ordinary a \<Longrightarrow> ordinary b \<Longrightarrow> \<not> js_less a b \<Longrightarrow> js_le a (Num t) \<Longrightarrow> js_le b (Num t)"
  by (cases a; cases b) (auto simp: ordinary_def)

lemma findNearest_min:
  assumes "\<forall>u\<in>set us. ordinary (u_dist u)" "ordinary (u_dist n0)"
  shows "findNearest n0 us \<in> insert n0 (set us) \<and>
         \<not> js_less (u_dist n0) (u_dist (findNearest n0 us)) \<and>
         (\<forall>u\<in>set us. \<not> js_less (u_dist u) (u_dist (findNearest n0 us)))"
  using assms
proof (induction us arbitrary: n0)
  case Nil
  then show ?case by (cases "u_dist n0") (simp_all add: findNearest_def ordinary_def)
next
  case (Cons u us)
  let ?n1 = "if js_less (u_dist u) (u_dist n0) then u else n0"
  have step: "findNearest n0 (u # us) = findNearest ?n1 us"
    by (simp add: findNearest_def)
  have ord1: "ordinary (u_dist ?n1)" using Cons.prems by simp
  have ordu: "ordinary (u_dist u)" using Cons.prems by simp
  have ih: "findNearest ?n1 us \<in> insert ?n1 (set us) \<and>
         \<not> js_less (u_dist ?n1) (u_dist (findNearest ?n1 us)) \<and>
         (\<forall>v\<in>set us. \<not> js_less (u_dist v) (u_dist (findNearest ?n1 us)))"
    using Cons.IH [of ?n1] Cons.prems ord1 by simp
  have ordr: "ordinary (u_dist (findNearest ?n1 us))"
    using ih Cons.prems ord1 by auto
  have a: "\<not> js_less (u_dist n0) (u_dist ?n1)"
    using Cons.prems(2) ordu by (cases "u_dist n0"; cases "u_dist u") (auto simp: ordinary_def)
  have b: "\<not> js_less (u_dist u) (u_dist ?n1)"
    using Cons.prems(2) ordu by (cases "u_dist n0"; cases "u_dist u") (auto simp: ordinary_def)
  have "\<not> js_less (u_dist n0) (u_dist (findNearest ?n1 us))"
    using js_less_trans_ord [OF Cons.prems(2) ord1 ordr a] ih by simp
  moreover have "\<not> js_less (u_dist u) (u_dist (findNearest ?n1 us))"
    using js_less_trans_ord [OF ordu ord1 ordr b] ih by simp
  moreover have "findNearest ?n1 us \<in> insert n0 (set (u # us))"
    using ih by auto
  ultimately show ?case unfolding step using ih by simp
qed

lemma sqrt_25: "sqrt 25 = 5"
  by (simp add: real_sqrt_unique)

lemma sqrt_900: "sqrt 900 = 30"
  by (simp add: real_sqrt_unique)

lemma dedup_twoRoofs:
  "map (attachDist 2538000 1152000) (dedup twoRoofs) =
     [\<lparr>u_attrs = attrsA, u_f = 50, u_s = 0, u_geom = Some (GeomPoint 2538003 1152004),
       u_dist = Num 5\<rparr>,
      \<lparr>u_attrs = attrsB, u_f = 80, u_s = 0, u_geom = Some (GeomPoint 2538018 1152024),
       u_dist = Num 30\<rparr>]"
  by (simp add: dedup_def dedup_step_def twoRoofs_def resultA_def resultB_def dedupKey_def
      firstTruthy_def attrsA_def
      attrsB_def emptyAttrs_def numOrZero_def numOrNull_def attachDist_def computeCentroid_def
      sqrt_25 sqrt_900 Let_def)

lemma chosenAttrs_single:
  "chosenAttrs e n [\<lparr>attributes = Some a, geometry = None, json = txt\<rparr>] = a"
  by (simp add: chosenAttrs_def dedup_def dedup_step_def attachDist_def computeCentroid_def
      chooseCandidate_def sortUniq_def findNearest_def Let_def)

lemma dedup_keeps_distinct_texts:
  assumes "attributes r1 = Some a1" "attributes r2 = Some a2"
      and "\<not> truthyKey (building_id a1)" "\<not> truthyKey (objectid a1)"
          "\<not> truthyKey (id_attr a1)" "\<not> truthyKey (label a1)"
      and "\<not> truthyKey (building_id a2)" "\<not> truthyKey (objectid a2)"
          "\<not> truthyKey (id_attr a2)" "\<not> truthyKey (label a2)"
      and "json r1 \<noteq> json r2"
  shows "length (dedup [r1, r2]) = 2"
  using assms
  by (simp add: dedup_def dedup_step_def dedupKey_def firstTruthy_def attributesText_def Let_def)

subsection \<open>The worker pool\<close>

declare runWorkers.simps [simp del]

lemma runWorkers_done:
  "pickWorker sched (workers ss) = None \<Longrightarrow> runWorkers net sched ss = ss"
  by (simp add: runWorkers.simps)

lemma runWorkers_step:
  "pickWorker sched (workers ss) = Some k \<Longrightarrow>
     runWorkers net sched ss = runWorkers net (tl sched) (completePoint net k ss)"
  by (simp add: runWorkers.simps)

lemma firstInFlight_None: "firstInFlight ws = None \<Longrightarrow> filter isInFlight ws = []"
  by (induction ws rule: firstInFlight.induct) auto

lemma pickWorker_None: "pickWorker sched ws = None \<Longrightarrow> filter isInFlight ws = []"
  by (auto simp: pickWorker_def split: list.splits if_splits dest: firstInFlight_None)

lemma inflight_update_Finished:
  "k < length ws \<Longrightarrow> isInFlight (ws ! k) \<Longrightarrow>
   Suc (length (filter isInFlight (ws[k := Finished]))) = length (filter isInFlight ws)"
proof (induction ws arbitrary: k)
  case Nil
  then show ?case by simp
next
  case (Cons w ws)
  then show ?case by (cases k) auto
qed

lemma completePoint_stopped:
  assumes "k < length (workers ss)" "isInFlight (workers ss ! k)" "stopEarly ss"
  shows "stopEarly (completePoint net k ss) \<and>
         workers (completePoint net k ss) = (workers ss)[k := Finished] \<and>
         done_count (completePoint net k ss) = Suc (done_count ss)"
proof -
  obtain pt rest where w: "workers ss ! k = InFlight pt rest"
    using assms(2) by (cases "workers ss ! k") auto
  obtain r cs where l: "lookupRadiation net pt = (r, cs)"
    by (cases "lookupRadiation net pt")
  show ?thesis
    using assms(3) by (simp add: completePoint_def w l Let_def startNext_def split: list.splits)
qed

lemma stopped_run:
  "stopEarly ss \<Longrightarrow>
     done_count (runWorkers net sched ss)
       = done_count ss + length (filter isInFlight (workers ss))"
proof (induction net sched ss rule: runWorkers.induct)
  case (1 net sched ss)
  show ?case
  proof (cases "pickWorker sched (workers ss)")
    case None
    then show ?thesis by (simp add: runWorkers_done pickWorker_None)
  next
    case (Some k)
    then have k: "k < length (workers ss)" "isInFlight (workers ss ! k)"
      using pickWorker_Some by blast+
    note c = completePoint_stopped [OF k "1.prems", of net]
    have "done_count (runWorkers net (tl sched) (completePoint net k ss)) =
          done_count (completePoint net k ss)
            + length (filter isInFlight (workers (completePoint net k ss)))"
      using "1.IH" [OF Some] c by simp
    then show ?thesis
      using c inflight_update_Finished [OF k] by (simp add: runWorkers_step [OF Some])
  qed
qed

lemma completePoint_samples:
  assumes "workers ss ! k = InFlight pt rest"
  shows "samples (completePoint net k ss) = samples ss @ inFlightSample net (InFlight pt rest)"
proof -
  obtain r cs where l: "lookupRadiation net pt = (r, cs)"
    by (cases "lookupRadiation net pt")
  show ?thesis
    by (cases r) (simp_all add: completePoint_def assms l inFlightSample_def Let_def)
qed

lemma mset_inFlight_update:
  "k < length ws \<Longrightarrow>
     mset (concat (map (inFlightSample net) ws)) =
       mset (inFlightSample net (ws ! k))
         + mset (concat (map (inFlightSample net) (ws[k := Finished])))"
proof (induction ws arbitrary: k)
  case Nil
  then show ?case by simp
next
  case (Cons w ws)
  show ?case
  proof (cases k)
    case 0
    then show ?thesis by (simp add: inFlightSample_def)
  next
    case (Suc j)
    then have "j < length ws" using Cons.prems by simp
    from Cons.IH [OF this] Suc show ?thesis by simp
  qed
qed

lemma stopped_samples:
  "stopEarly ss \<Longrightarrow>
     \<exists>added. samples (runWorkers net sched ss) = samples ss @ added \<and>
       mset added = mset (concat (map (inFlightSample net) (workers ss)))"
proof (induction net sched ss rule: runWorkers.induct)
  case (1 net sched ss)
  show ?case
  proof (cases "pickWorker sched (workers ss)")
    case None
    then have "filter isInFlight (workers ss) = []" by (rule pickWorker_None)
    then have "\<forall>w\<in>set (workers ss). w = Finished"
      by (auto simp: filter_empty_conv elim: isInFlight.elims)
    then have "concat (map (inFlightSample net) (workers ss)) = []"
      by (auto simp: inFlightSample_def)
    then show ?thesis using None by (simp add: runWorkers_done)
  next
    case (Some k)
    then have k: "k < length (workers ss)" "isInFlight (workers ss ! k)"
      using pickWorker_Some by blast+
    obtain pt rest where w: "workers ss ! k = InFlight pt rest"
      using k(2) by (cases "workers ss ! k") auto
    note c = completePoint_stopped [OF k "1.prems", of net]
    obtain added where a: "samples (runWorkers net (tl sched) (completePoint net k ss))
        = samples (completePoint net k ss) @ added"
      "mset added = mset (concat (map (inFlightSample net) (workers (completePoint net k ss))))"
      using "1.IH" [OF Some] c by blast
    have s: "samples (completePoint net k ss) = samples ss @ inFlightSample net (workers ss ! k)"
      using completePoint_samples [OF w, of net] w by simp
    have "samples (runWorkers net sched ss)
        = samples ss @ (inFlightSample net (workers ss ! k) @ added)"
      using a(1) s by (simp add: runWorkers_step [OF Some])
    moreover have "mset (inFlightSample net (workers ss ! k) @ added)
        = mset (concat (map (inFlightSample net) (workers ss)))"
      using a(2) c mset_inFlight_update [OF k(1), of net] by simp
    ultimately show ?thesis by blast
  qed
qed

lemma completePoint_sets_flag:
  assumes "k < length (workers ss)" "workers ss ! k = InFlight pt rest"
      and "stableSamples (samples (completePoint net k ss))"
  shows "stopEarly (completePoint net k ss) \<and> workers (completePoint net k ss) ! k = Finished"
proof -
  obtain r cs where l: "lookupRadiation net pt = (r, cs)"
    by (cases "lookupRadiation net pt")
  show ?thesis
    using assms(1,3) by (simp add: completePoint_def assms(2) l Let_def)
qed

text \<open>The early-stop test without the square root.\<close>

lemma fold_squares_nonneg:
  "0 \<le> acc \<Longrightarrow> 0 \<le> fold (\<lambda>b a. a + (b - m) ^ 2) xs (acc::real)"
  by (induction xs arbitrary: acc) simp_all

lemma sqrt_quot_less:
  assumes "0 \<le> v" "0 < m" "0 < c"
  shows "(sqrt v / m < c) = (v < (c * m) ^ 2)"
proof -
  have "(sqrt v / m < c) = (sqrt v < c * m)"
    using assms(2) by (simp add: pos_divide_less_eq)
  also have "\<dots> = (sqrt v < sqrt ((c * m) ^ 2))"
    using assms by simp
  also have "\<dots> = (v < (c * m) ^ 2)"
    by (rule real_sqrt_less_iff)
  finally show ?thesis .
qed

lemma stableSamples_squared:
  "stableSamples xs =
     (length xs \<ge> 4 \<and>
      (let mean = fold (\<lambda>b a. a + b) xs 0 / real (length xs);
           variance = fold (\<lambda>b a. a + (b - mean) ^ 2) xs 0 / real (length xs)
       in mean > 0 \<and> variance < (0.05 * mean) ^ 2))"
proof -
  let ?mean = "fold (\<lambda>b a. a + b) xs 0 / real (length xs)"
  let ?var = "fold (\<lambda>b a. a + (b - ?mean) ^ 2) xs 0 / real (length xs)"
  have v: "0 \<le> ?var"
    using fold_squares_nonneg [of 0 ?mean xs] by simp
  have "?mean > 0 \<Longrightarrow> (sqrt ?var / ?mean < 0.05) = (?var < (0.05 * ?mean) ^ 2)"
    using sqrt_quot_less [OF v, of ?mean "0.05"] by simp
  then show ?thesis
    unfolding stableSamples_def Let_def by blast
qed

subsection \<open>The example services\<close>

lemma radiation_grid:
  "radiation (solarRoofDataOf (emptyAttrs\<lparr>gstrahlung := Some (gridValue e n)\<rparr>)) = gridValue e n"
  by (simp add: solarRoofDataOf_def annualKwhPerM2_def emptyAttrs_def numOrZero_def numOrNull_def
      tier1_def tier2_def tier3_def tier4_def falsy_def plausible_def Math_round_def Let_def
      gridValue_def)

lemma gridValue_pos: "gridValue e n > 0"
  by (simp add: gridValue_def)

lemma lookupRadiation_grid:
  "lookupRadiation gridNet \<lparr>lat = l, lng = g\<rparr> =
     (Some (gridValue g l), [ReqReframe l g, ReqIdentifyPoint g l])"
  using gridValue_pos [of g l]
  by (simp add: lookupRadiation_def convertWGS84toLV95_def getSolarData_def gridNet_def
      response_ok_def chosenAttrs_single radiation_grid)

lemma boundingBox_slanted:
  "boundingBox slantedRoof = \<lparr>minLat = 0.008, minLng = - 0.01, maxLat = 0.02, maxLng = 0.01\<rparr>"
  by (simp add: boundingBox_def slantedRoof_def bbox_step_def)

lemma adaptiveGrid_slanted: "adaptiveGrid 3 ((0.02 - 0.008) * (0.01 - (- 0.01))) = 3"
  by (simp add: adaptiveGrid_def)

lemma pointInPolygon_slanted:
  "pointInPolygon \<lparr>lat = 0.011, lng = - 0.005\<rparr> slantedRoof"
  "pointInPolygon \<lparr>lat = 0.011, lng = 0\<rparr> slantedRoof"
  "pointInPolygon \<lparr>lat = 0.011, lng = 0.005\<rparr> slantedRoof"
  "pointInPolygon \<lparr>lat = 0.014, lng = - 0.005\<rparr> slantedRoof"
  "pointInPolygon \<lparr>lat = 0.014, lng = 0\<rparr> slantedRoof"
  "pointInPolygon \<lparr>lat = 0.014, lng = 0.005\<rparr> slantedRoof"
  "pointInPolygon \<lparr>lat = 0.017, lng = - 0.005\<rparr> slantedRoof"
  "pointInPolygon \<lparr>lat = 0.017, lng = 0\<rparr> slantedRoof"
  "pointInPolygon \<lparr>lat = 0.017, lng = 0.005\<rparr> slantedRoof"
  by (simp_all add: pointInPolygon_def slantedRoof_def js_div_def)

lemma grid_slanted:
  "map (\<lambda>(i, j). \<lparr>lat = 0.008 + (0.02 - 0.008) / (real 3 + 1) * real i,
                   lng = - 0.01 + (0.01 - (- 0.01)) / (real 3 + 1) * real j\<rparr>)
     (List.product [1..<Suc 3] [1..<Suc 3]) =
   [\<lparr>lat = 0.011, lng = - 0.005\<rparr>, \<lparr>lat = 0.011, lng = 0\<rparr>, \<lparr>lat = 0.011, lng = 0.005\<rparr>,
    \<lparr>lat = 0.014, lng = - 0.005\<rparr>, \<lparr>lat = 0.014, lng = 0\<rparr>, \<lparr>lat = 0.014, lng = 0.005\<rparr>,
    \<lparr>lat = 0.017, lng = - 0.005\<rparr>, \<lparr>lat = 0.017, lng = 0\<rparr>, \<lparr>lat = 0.017, lng = 0.005\<rparr>]"
  by (simp add: upt_rec)

lemma candidatePts_slanted:
  "candidatePts slantedRoof 3 =
   [\<lparr>lat = 0.011, lng = - 0.005\<rparr>, \<lparr>lat = 0.011, lng = 0\<rparr>, \<lparr>lat = 0.011, lng = 0.005\<rparr>,
    \<lparr>lat = 0.014, lng = - 0.005\<rparr>, \<lparr>lat = 0.014, lng = 0\<rparr>, \<lparr>lat = 0.014, lng = 0.005\<rparr>,
    \<lparr>lat = 0.017, lng = - 0.005\<rparr>, \<lparr>lat = 0.017, lng = 0\<rparr>, \<lparr>lat = 0.017, lng = 0.005\<rparr>]"
  unfolding candidatePts_def boundingBox_slanted Let_def
  apply (simp only: bbox.simps adaptiveGrid_slanted grid_slanted)
  apply (simp only: filter.simps pointInPolygon_slanted if_True)
  done
lemma initSession_one:
  "initSession 1 (candidatePts slantedRoof 3) =
     \<lparr>samples = [], done_count = 0, stopEarly = False,
      workers = [InFlight \<lparr>lat = 0.011, lng = - 0.005\<rparr>
                  [\<lparr>lat = 0.011, lng = 0\<rparr>, \<lparr>lat = 0.011, lng = 0.005\<rparr>,
                   \<lparr>lat = 0.014, lng = - 0.005\<rparr>, \<lparr>lat = 0.014, lng = 0\<rparr>,
                   \<lparr>lat = 0.014, lng = 0.005\<rparr>, \<lparr>lat = 0.017, lng = - 0.005\<rparr>,
                   \<lparr>lat = 0.017, lng = 0\<rparr>, \<lparr>lat = 0.017, lng = 0.005\<rparr>]],
      issued = [], progress = [], total_pts = 9\<rparr>"
  unfolding candidatePts_slanted
  by (simp add: initSession_def groups_def startNext_def upt_rec)

lemma initSession_four:
  "initSession 4 (candidatePts slantedRoof 3) =
     \<lparr>samples = [], done_count = 0, stopEarly = False,
      workers = [InFlight \<lparr>lat = 0.011, lng = - 0.005\<rparr>
                   [\<lparr>lat = 0.014, lng = 0\<rparr>, \<lparr>lat = 0.017, lng = 0.005\<rparr>],
                 InFlight \<lparr>lat = 0.011, lng = 0\<rparr> [\<lparr>lat = 0.014, lng = 0.005\<rparr>],
                 InFlight \<lparr>lat = 0.011, lng = 0.005\<rparr> [\<lparr>lat = 0.017, lng = - 0.005\<rparr>],
                 InFlight \<lparr>lat = 0.014, lng = - 0.005\<rparr> [\<lparr>lat = 0.017, lng = 0\<rparr>]],
      issued = [], progress = [], total_pts = 9\<rparr>"
  unfolding candidatePts_slanted
  by (simp add: initSession_def groups_def startNext_def upt_rec)

lemma threeDone_fields:
  "samples threeDone = [1000, 1010, 995] \<and> done_count threeDone = 3 \<and>
   stopEarly threeDone = False \<and>
   workers threeDone =
     [InFlight \<lparr>lat = 0.014, lng = 0\<rparr> [\<lparr>lat = 0.017, lng = 0.005\<rparr>],
      InFlight \<lparr>lat = 0.014, lng = 0.005\<rparr> [],
      InFlight \<lparr>lat = 0.017, lng = - 0.005\<rparr> [],
      InFlight \<lparr>lat = 0.014, lng = - 0.005\<rparr> [\<lparr>lat = 0.017, lng = 0\<rparr>]]"
  unfolding threeDone_def initSession_four
  by (simp add: completePoint_def lookupRadiation_grid stableSamples_def startNext_def
      gridValue_def Let_def)

lemma stable_stream: "stableSamples [1000, 1010, 995, 1005]"
  by (simp add: stableSamples_squared Let_def power2_eq_square)

lemma fourDone_fields:
  "samples (completePoint gridNet 3 threeDone) = [1000, 1010, 995, 1005] \<and>
   done_count (completePoint gridNet 3 threeDone) = 4 \<and>
   workers (completePoint gridNet 3 threeDone) =
     [InFlight \<lparr>lat = 0.014, lng = 0\<rparr> [\<lparr>lat = 0.017, lng = 0.005\<rparr>],
      InFlight \<lparr>lat = 0.014, lng = 0.005\<rparr> [],
      InFlight \<lparr>lat = 0.017, lng = - 0.005\<rparr> [],
      Finished]"
  by (simp add: completePoint_def threeDone_fields lookupRadiation_grid gridValue_def
      stable_stream Let_def)

lemma fourDone_inFlight:
  "concat (map (inFlightSample gridNet) (workers (completePoint gridNet 3 threeDone)))
     = [1002, 1002, 1002]"
  by (simp add: fourDone_fields inFlightSample_def lookupRadiation_grid gridValue_def)

lemma run_one:
  "samples (runWorkers gridNet [] (initSession 1 (candidatePts slantedRoof 3)))
     = [1000, 1010, 995, 1005] \<and>
   done_count (runWorkers gridNet [] (initSession 1 (candidatePts slantedRoof 3))) = 4 \<and>
   total_pts (runWorkers gridNet [] (initSession 1 (candidatePts slantedRoof 3))) = 9 \<and>
   length (issued (runWorkers gridNet [] (initSession 1 (candidatePts slantedRoof 3)))) = 8"
  unfolding initSession_one
  by (simp add: runWorkers.simps pickWorker_def completePoint_def lookupRadiation_grid
      stableSamples_squared startNext_def gridValue_def Let_def power2_eq_square)

lemma run_four:
  "samples (runWorkers gridNet [0, 1, 2, 3] (initSession 4 (candidatePts slantedRoof 3)))
     = [1000, 1010, 995, 1005, 1002, 1002, 1002] \<and>
   done_count (runWorkers gridNet [0, 1, 2, 3] (initSession 4 (candidatePts slantedRoof 3))) = 7 \<and>
   total_pts (runWorkers gridNet [0, 1, 2, 3] (initSession 4 (candidatePts slantedRoof 3))) = 9 \<and>
   length (issued (runWorkers gridNet [0, 1, 2, 3] (initSession 4 (candidatePts slantedRoof 3)))) = 14"
  unfolding initSession_four
  by (simp add: runWorkers.simps pickWorker_def completePoint_def lookupRadiation_grid
      stableSamples_squared startNext_def gridValue_def Let_def power2_eq_square)

lemma sample_uncached:
  assumes "\<not> length poly < 3" "candidatePts poly g \<noteq> []" "0 < c"
      and "samples (runWorkers net sched (initSession c (candidatePts poly g))) = xs" "xs \<noteq> []"
  shows "samplePolygonRadiation net sched emptyStore (Some poly) g c =
     (Inr (Some (Math_round (fold (\<lambda>b a. a + b) xs 0 / real (length xs)))),
      storeResult (cacheKey poly) (Math_round (fold (\<lambda>b a. a + b) xs 0 / real (length xs)))
        (emptyStore\<lparr>netlog := issued (runWorkers net sched (initSession c (candidatePts poly g)))\<rparr>))"
  unfolding samplePolygonRadiation_def using assms
  by (simp add: emptyStore_def Let_def)

lemma netlog_storeResult: "netlog (storeResult key r st) = netlog st"
  by (simp add: storeResult_def saveCacheToLocalStorage_def Let_def)

lemma top_one:
  "fst (samplePolygonRadiation gridNet [] emptyStore (Some slantedRoof) 3 1) = Inr (Some 1003) \<and>
   length (netlog (snd (samplePolygonRadiation gridNet [] emptyStore (Some slantedRoof) 3 1))) = 8"
proof -
  have len: "\<not> length slantedRoof < 3" by (simp add: slantedRoof_def)
  have ne: "candidatePts slantedRoof 3 \<noteq> []" by (simp add: candidatePts_slanted)
  have s: "samples (runWorkers gridNet [] (initSession 1 (candidatePts slantedRoof 3)))
     = [1000, 1010, 995, 1005]" using run_one by simp
  have r: "Math_round (2005 / 2) = 1003"
    by (simp add: Math_round_def floor_eq_iff)
  show ?thesis
    using sample_uncached [OF len ne _ s] run_one
    by (simp add: r netlog_storeResult)
qed

lemma top_four:
  "fst (samplePolygonRadiation gridNet [0, 1, 2, 3] emptyStore (Some slantedRoof) 3 4) = Inr (Some 1002) \<and>
   length (netlog (snd (samplePolygonRadiation gridNet [0, 1, 2, 3] emptyStore (Some slantedRoof) 3 4))) = 14"
proof -
  have len: "\<not> length slantedRoof < 3" by (simp add: slantedRoof_def)
  have ne: "candidatePts slantedRoof 3 \<noteq> []" by (simp add: candidatePts_slanted)
  have s: "samples (runWorkers gridNet [0, 1, 2, 3] (initSession 4 (candidatePts slantedRoof 3)))
     = [1000, 1010, 995, 1005, 1002, 1002, 1002]" using run_four by simp
  have r: "Math_round (7016 / 7) = 1002"
    by (simp add: Math_round_def floor_eq_iff)
  show ?thesis
    using sample_uncached [OF len ne _ s] run_four
    by (simp add: r netlog_storeResult)
qed


lemma pointInPolygon_square_east:
  "0 \<le> lng pt \<Longrightarrow> \<not> pointInPolygon pt lausanneSquare"
  by (simp add: pointInPolygon_def lausanneSquare_def js_div_def Let_def)

lemma boundingBox_square:
  "boundingBox lausanneSquare =
     \<lparr>minLat = 46.519, minLng = 6.631, maxLat = 46.5205, maxLng = 6.633\<rparr>"
  by (simp add: boundingBox_def lausanneSquare_def bbox_step_def)

lemma candidatePts_square: "candidatePts lausanneSquare gridSize = []"
  unfolding candidatePts_def boundingBox_square Let_def
  by (auto simp: filter_empty_conv intro!: pointInPolygon_square_east)

lemma lookupRadiation_roof:
  "lookupRadiation roofNet pt =
     (Some 954, [ReqReframe (lat pt) (lng pt), ReqIdentifyPoint 2538000 1152000])"
  by (simp add: lookupRadiation_def convertWGS84toLV95_def getSolarData_def roofNet_def
      sampleResult_def response_ok_def chosenAttrs_single radiation_sampleAttrs)

lemma sample_square_uncached:
  assumes "polygonSampleCache st (cacheKey lausanneSquare) = None"
      and "(case globalCache st of None \<Rightarrow> None | Some g \<Rightarrow> g (cacheKey lausanneSquare)) = None"
  shows "samplePolygonRadiation roofNet sched st (Some lausanneSquare) 3 4 =
     (Inr (Some 954),
      storeResult (cacheKey lausanneSquare) 954
        (st\<lparr>netlog := netlog st @ [ReqReframe (lat (polygonCentroid lausanneSquare))
                                  (lng (polygonCentroid lausanneSquare)),
                                ReqIdentifyPoint 2538000 1152000]\<rparr>))"
proof -
  have len: "\<not> length lausanneSquare < 3" by (simp add: lausanneSquare_def)
  have r: "Math_round 954 = 954" by (simp add: Math_round_def)
  show ?thesis
    unfolding samplePolygonRadiation_def using assms
    by (simp add: len candidatePts_square centroidFallback_def lookupRadiation_roof r Let_def)
qed

lemma first_call:
  "samplePolygonRadiation roofNet sched emptyStore (Some lausanneSquare) 3 4 =
     (Inr (Some 954),
      storeResult (cacheKey lausanneSquare) 954
        (emptyStore\<lparr>netlog := [ReqReframe (lat (polygonCentroid lausanneSquare))
                                  (lng (polygonCentroid lausanneSquare)),
                                ReqIdentifyPoint 2538000 1152000]\<rparr>))"
proof -
  have c1: "polygonSampleCache emptyStore (cacheKey lausanneSquare) = None"
    by (simp add: emptyStore_def)
  have c2: "(case globalCache emptyStore of None \<Rightarrow> None
             | Some g \<Rightarrow> g (cacheKey lausanneSquare)) = None"
    by (simp add: emptyStore_def)
  have n: "netlog emptyStore = []"
    by (simp add: emptyStore_def)
  show ?thesis
    using sample_square_uncached [OF c1 c2, of sched] by (simp add: n)
qed

lemma afterFirst_eq:
  "afterFirst = storeResult (cacheKey lausanneSquare) 954
        (emptyStore\<lparr>netlog := [ReqReframe (lat (polygonCentroid lausanneSquare))
                                  (lng (polygonCentroid lausanneSquare)),
                                ReqIdentifyPoint 2538000 1152000]\<rparr>)"
  by (simp add: afterFirst_def first_call)

lemma afterClear_caches:
  "polygonSampleCache afterClear = Map.empty \<and>
   persisted afterClear = None \<and>
   (case globalCache afterClear of None \<Rightarrow> None | Some g \<Rightarrow> g (cacheKey lausanneSquare))
     = Some 954 \<and>
   netlog afterClear = netlog afterFirst"
  by (simp add: afterClear_def afterFirst_eq storeResult_def clearPolygonSampleCache_def
      saveCacheToLocalStorage_def emptyStore_def Let_def)

lemma second_call:
  "fst (samplePolygonRadiation roofNet sched afterClear (Some lausanneSquare) 3 4)
     = Inr (Some 954) \<and>
   netlog (snd (samplePolygonRadiation roofNet sched afterClear (Some lausanneSquare) 3 4))
     = netlog afterClear"
proof -
  have len: "\<not> length lausanneSquare < 3" by (simp add: lausanneSquare_def)
  show ?thesis
    unfolding samplePolygonRadiation_def using afterClear_caches
    by (simp add: len Let_def)
qed


lemma afterFirst_cache:
  "polygonSampleCache afterFirst (cacheKey lausanneSquare) = Some 954"
  by (simp add: afterFirst_eq storeResult_def saveCacheToLocalStorage_def emptyStore_def Let_def)

lemma cached_call:
  "samplePolygonRadiation roofNet sched afterFirst (Some lausanneSquare) 3 4
     = (Inr (Some 954), afterFirst)"
proof -
  have len: "\<not> length lausanneSquare < 3" by (simp add: lausanneSquare_def)
  show ?thesis
    unfolding samplePolygonRadiation_def using afterFirst_cache
    by (simp add: len numOrNull_def Let_def)
qed





section \<open>Properties\<close>

text \<open>
  C1 (the program evaluated at the claim's inputs). For the square with corners
  (46.519, 6.631) and (46.5205, 6.633) the claim has the point (46.5198, 6.632) inside
  and the point (46.5300, 6.632) outside. \<open>pointInPolygon\<close> answers \<open>False\<close> for both: on a
  vertical edge \<open>xj - xi\<close> is zero, so the quotient is zero and \<open>x < 0\<close> fails, and a
  horizontal edge never has its ends on different sides of \<open>y\<close>.
\<close>

theorem pointInPolygon_lausanneSquare:
  "pointInPolygon \<lparr>lat = 46.5198, lng = 6.632\<rparr> lausanneSquare = False \<and>
   pointInPolygon \<lparr>lat = 46.5300, lng = 6.632\<rparr> lausanneSquare = False"
  by (simp add: pointInPolygon_def lausanneSquare_def js_div_def)

text \<open>
  C2 (amended). For every polygon with fewer than 3 vertices, and for a \<^verbatim>\<open>null\<close> polygon,
  \<open>samplePolygonRadiation\<close> and \<open>getSolarDataForPolygon\<close> return \<^verbatim>\<open>null\<close> at once: no error
  is raised, the state is unchanged and no request is issued.
\<close>

theorem short_polygon_returns_null:
  assumes "polygonWgs84 = None \<or> (\<exists>poly. polygonWgs84 = Some poly \<and> length poly < 3)"
  shows "samplePolygonRadiation net sched st polygonWgs84 gridSize concurrency = (Inr None, st) \<and>
         getSolarDataForPolygon net polygonWgs84 = (Inr None, [])"
  using assms by (auto simp: samplePolygonRadiation_def getSolarDataForPolygon_def)

theorem short_polygon_returns_null_witness:
  "length twoPts < 3 \<and>
   samplePolygonRadiation roofNet [] emptyStore (Some twoPts) 3 4 = (Inr None, emptyStore) \<and>
   getSolarDataForPolygon roofNet (Some twoPts) = (Inr None, []) \<and>
   samplePolygonRadiation roofNet [] emptyStore None 3 4 = (Inr None, emptyStore)"
  using short_polygon_returns_null [of "Some twoPts" roofNet "[]" emptyStore 3 4]
    short_polygon_returns_null [of None roofNet "[]" emptyStore 3 4]
  by (simp add: twoPts_def)

text \<open>
  C2 as stated fails: on a polygon of two vertices neither function raises a
  precondition error; both return \<^verbatim>\<open>null\<close> normally.
\<close>

theorem short_polygon_no_error:
  "fst (samplePolygonRadiation roofNet [] emptyStore (Some twoPts) 3 4) = Inr None \<and>
   \<not> isl (fst (samplePolygonRadiation roofNet [] emptyStore (Some twoPts) 3 4)) \<and>
   fst (getSolarDataForPolygon roofNet (Some twoPts)) = Inr None \<and>
   \<not> isl (fst (getSolarDataForPolygon roofNet (Some twoPts)))"
  by (simp add: samplePolygonRadiation_def getSolarDataForPolygon_def twoPts_def)

text \<open>
  C3 (amended). \<open>getSolarData\<close> returns \<^verbatim>\<open>null\<close>, and raises nothing, when the service
  answers successfully with no results, and also whenever the response has a status that
  is not a success.
\<close>

theorem getSolarData_null_without_error:
  "(identifyPoint net e n = Response status data \<and> response_ok status \<and>
      (data = None \<or> data = Some []) \<longrightarrow>
      getSolarData net e n = (Inr None, [ReqIdentifyPoint e n])) \<and>
   (identifyPoint net e n = Response status data \<and> \<not> response_ok status \<longrightarrow>
      getSolarData net e n = (Inr None, [ReqIdentifyPoint e n]))"
  by (auto simp: getSolarData_def)

theorem getSolarData_null_without_error_witness:
  "response_ok 200 \<and> \<not> response_ok 500 \<and>
   getSolarData noRoofNet 2538000 1152000 = (Inr None, [ReqIdentifyPoint 2538000 1152000]) \<and>
   getSolarData serverErrorNet 2538000 1152000 = (Inr None, [ReqIdentifyPoint 2538000 1152000])"
  using getSolarData_null_without_error [of noRoofNet 2538000 1152000 200 "Some []"]
    getSolarData_null_without_error [of serverErrorNet 2538000 1152000 500 None]
  by (simp add: noRoofNet_def serverErrorNet_def response_ok_def)

text \<open>
  C3 as stated fails: on a response of status 500 \<open>getSolarData\<close> raises no error; it
  returns \<^verbatim>\<open>null\<close>.
\<close>

theorem getSolarData_status_500_no_error:
  "identifyPoint serverErrorNet 2538000 1152000 = Response 500 None \<and>
   \<not> response_ok 500 \<and>
   fst (getSolarData serverErrorNet 2538000 1152000) = Inr None \<and>
   \<not> isl (fst (getSolarData serverErrorNet 2538000 1152000))"
  by (simp add: getSolarData_def serverErrorNet_def response_ok_def)

text \<open>
  C4 (amended). For every attribute set the radiation of the result is the integer
  nearest to the normalised value (\<^verbatim>\<open>Math.round\<close>), and it is non-negative whenever the
  reported production, the general radiation figure and the monthly radiation figure
  are each absent or non-negative. The fallback of tier 4 passes the raw figure on as it
  is, with its sign.
\<close>

theorem radiation_rounded_nonneg_inputs:
  "radiation (solarRoofDataOf a) = of_int \<lfloor>annualKwhPerM2 a + 1 / 2\<rfloor> \<and>
   \<bar>radiation (solarRoofDataOf a) - annualKwhPerM2 a\<bar> \<le> 1 / 2 \<and>
   ((\<forall>x. stromertrag a = Some x \<longrightarrow> 0 \<le> x) \<and>
    (\<forall>x. gstrahlung a = Some x \<longrightarrow> 0 \<le> x) \<and>
    (\<forall>x. mstrahlung a = Some x \<longrightarrow> 0 \<le> x) \<longrightarrow> 0 \<le> radiation (solarRoofDataOf a))"
  unfolding radiation_solarRoofDataOf
  using Math_round_near [of "annualKwhPerM2 a"] Math_round_nonneg annualKwhPerM2_nonneg [of a]
  by (auto simp: Math_round_def)

theorem radiation_rounded_nonneg_inputs_witness:
  "radiation (solarRoofDataOf edge1) = of_int \<lfloor>annualKwhPerM2 edge1 + 1 / 2\<rfloor> \<and>
   \<bar>radiation (solarRoofDataOf edge1) - annualKwhPerM2 edge1\<bar> \<le> 1 / 2 \<and>
   0 \<le> radiation (solarRoofDataOf edge1)"
proof -
  have h: "(\<forall>x. stromertrag edge1 = Some x \<longrightarrow> 0 \<le> x) \<and>
           (\<forall>x. gstrahlung edge1 = Some x \<longrightarrow> 0 \<le> x) \<and>
           (\<forall>x. mstrahlung edge1 = Some x \<longrightarrow> 0 \<le> x)"
    by (simp add: edge1_def emptyAttrs_def)
  show ?thesis
    using radiation_rounded_nonneg_inputs [of edge1] h by blast
qed

text \<open>
  C4 as stated fails: a roof whose only figure is a general radiation of -5 reaches the
  fallback of tier 4, and its radiation is -5.
\<close>

theorem radiation_negative_fallback:
  "radiation (solarRoofDataOf (emptyAttrs\<lparr>gstrahlung := Some (- 5)\<rparr>)) = - 5"
  by (simp add: solarRoofDataOf_def annualKwhPerM2_def emptyAttrs_def numOrZero_def numOrNull_def
      tier1_def tier2_def tier3_def tier4_def falsy_def plausible_def Math_round_def Let_def)

text \<open>
  C5 (amended). Tier 1: whenever a reported annual production that is not zero and a
  strictly positive reported area both exist, the radiation is production / (area * 0.1445)
  rounded to the nearest integer, whatever the monthly and general figures are. The
  attributes area = 35.2531614459, production = 4862, monthly = 862, general = 30388
  yield 954.
\<close>

theorem tier1_production_derived:
  "(stromertrag a = Some p \<and> p \<noteq> 0 \<and> flaeche a = Some fl \<and> 0 < fl \<longrightarrow>
      radiation (solarRoofDataOf a) = Math_round (p / (fl * 0.1445))) \<and>
   radiation (solarRoofDataOf sampleAttrs) = 954"
  using tier1_radiation [of a p fl] radiation_sampleAttrs by blast

theorem tier1_production_derived_witness:
  "stromertrag sampleAttrs = Some 4862 \<and> flaeche sampleAttrs = Some 35.2531614459 \<and>
   radiation (solarRoofDataOf sampleAttrs) = Math_round (4862 / (35.2531614459 * 0.1445)) \<and>
   radiation (solarRoofDataOf sampleAttrs) = 954"
  using tier1_production_derived [of sampleAttrs 4862 "35.2531614459"]
  by (simp add: sampleAttrs_def emptyAttrs_def)

text \<open>
  C5 as stated fails: the quotient 4862 / (35.2531614459 * 0.1445) is about 954.44, and the
  radiation of the sample attributes is not 955.
\<close>

theorem tier1_sample_not_955:
  "radiation (solarRoofDataOf sampleAttrs) \<noteq> 955"
  by (simp add: radiation_sampleAttrs)

text \<open>
  C6. Tier 3: when tiers 1 and 2 produce no value and a general radiation figure \<open>g\<close>
  exists, the candidates \<open>g\<close>, \<open>g / 1000\<close>, \<open>g / 3.6\<close> are tried in that order and the first
  one strictly inside the window (200, 20000) is taken, then rounded.
\<close>

theorem tier3_unit_inference:
  assumes "(\<forall>p. stromertrag a = Some p \<longrightarrow> p = 0) \<or> (\<forall>fl. flaeche a = Some fl \<longrightarrow> fl \<le> 0)"
      and "\<forall>m. mstrahlung a = Some m \<longrightarrow> m = 0 \<or> \<not> (200 < m * 12 \<and> m * 12 < 20000)"
      and "gstrahlung a = Some g"
  shows "(200 < g \<and> g < 20000 \<longrightarrow> radiation (solarRoofDataOf a) = Math_round g) \<and>
         (\<not> (200 < g \<and> g < 20000) \<and> 200 < g / 1000 \<and> g / 1000 < 20000 \<longrightarrow>
            radiation (solarRoofDataOf a) = Math_round (g / 1000)) \<and>
         (\<not> (200 < g \<and> g < 20000) \<and> \<not> (200 < g / 1000 \<and> g / 1000 < 20000) \<and>
          200 < g / 3.6 \<and> g / 3.6 < 20000 \<longrightarrow>
            radiation (solarRoofDataOf a) = Math_round (g / 3.6))"
proof -
  let ?fl = "numOrZero (flaeche a)"
  let ?st = "numOrNull (stromertrag a)"
  let ?ms = "numOrNull (mstrahlung a)"
  have t1: "tier1 ?fl ?st = None"
    using assms(1)
    by (auto simp: tier1_def falsy_def numOrNull_def numOrZero_def split: option.splits)
  have t2: "tier2 ?ms (tier1 ?fl ?st) = None"
    unfolding t1 using assms(2)
    by (auto simp: tier2_def falsy_def numOrNull_def plausible_def Let_def split: option.splits)
  have g0: "plausible g \<or> plausible (g / 1000) \<or> plausible (g / 3.6)
      \<Longrightarrow> numOrNull (gstrahlung a) = Some g"
    using assms(3) by (auto simp: numOrNull_def plausible_def)
  show ?thesis
    unfolding radiation_solarRoofDataOf annualKwhPerM2_def Let_def t2
    using g0 by (auto simp: tier3_def tier4_def falsy_def numOrZero_def plausible_def)
qed

theorem tier3_unit_inference_witness:
  "gstrahlung edge1 = Some 3000000 \<and> radiation (solarRoofDataOf edge1) = 3000"
  using tier3_unit_inference [of edge1 3000000]
  by (simp add: edge1_def emptyAttrs_def Math_round_def)

text \<open>
  C7. Candidate selection: among the deduplicated representatives with their distances
  to the query point, the one selected is a nearest one when a representative lies
  within 20 length units; otherwise it is one of largest reported area and, among
  those, of largest reported production.
\<close>

theorem chooseCandidate_rule:
  assumes "us \<noteq> []"
  shows "\<exists>c. chooseCandidate (map (attachDist e n) us) = Some c \<and>
           c \<in> set (map (attachDist e n) us) \<and>
           (if \<exists>u\<in>set (map (attachDist e n) us). js_le (u_dist u) (Num 20)
            then js_le (u_dist c) (Num 20) \<and>
                 (\<forall>u\<in>set (map (attachDist e n) us). \<not> js_less (u_dist u) (u_dist c))
            else (\<forall>u\<in>set (map (attachDist e n) us).
                    u_f u < u_f c \<or> (u_f u = u_f c \<and> u_s u \<le> u_s c)))"
proof -
  let ?uniq = "map (attachDist e n) us"
  have ord: "\<forall>u\<in>set ?uniq. ordinary (u_dist u)"
    by (auto simp: ordinary_attachDist)
  obtain first rest where sorted: "sortUniq ?uniq = first # rest"
    using assms set_sortUniq [of ?uniq] by (cases "sortUniq ?uniq") auto
  have first: "first \<in> set ?uniq" "\<forall>u\<in>set ?uniq. notAfter first u"
    using sortUniq_first [OF sorted] by simp_all
  have sset: "set (first # rest) = set ?uniq"
    using set_sortUniq [of ?uniq] sorted by simp
  let ?nearest = "findNearest first (first # rest)"
  have ords: "\<forall>u\<in>set (first # rest). ordinary (u_dist u)"
    unfolding sset by (rule ord)
  have ordf: "ordinary (u_dist first)"
    using ord first(1) by blast
  have fm: "?nearest \<in> insert first (set (first # rest)) \<and>
         \<not> js_less (u_dist first) (u_dist ?nearest) \<and>
         (\<forall>u\<in>set (first # rest). \<not> js_less (u_dist u) (u_dist ?nearest))"
    by (rule findNearest_min [OF ords ordf])
  have "?nearest \<in> set (first # rest)"
    using fm by auto
  then have near1: "?nearest \<in> set ?uniq"
    unfolding sset .
  have near2: "\<forall>u\<in>set ?uniq. \<not> js_less (u_dist u) (u_dist ?nearest)"
    using fm unfolding sset by blast
  have ordn: "ordinary (u_dist ?nearest)" using near1 ord by blast
  show ?thesis
  proof (cases "js_le (u_dist ?nearest) (Num 20)")
    case True
    then have "chooseCandidate ?uniq = Some ?nearest"
      by (simp add: chooseCandidate_def sorted CHOOSE_NEARBY_METERS_def)
    moreover have "\<exists>u\<in>set ?uniq. js_le (u_dist u) (Num 20)" using True near1 by blast
    ultimately show ?thesis using True near1 near2 by auto
  next
    case False
    then have ch: "chooseCandidate ?uniq = Some first"
      by (simp add: chooseCandidate_def sorted CHOOSE_NEARBY_METERS_def)
    have "\<not> (\<exists>u\<in>set ?uniq. js_le (u_dist u) (Num 20))"
    proof
      assume "\<exists>u\<in>set ?uniq. js_le (u_dist u) (Num 20)"
      then obtain u where u: "u \<in> set ?uniq" "js_le (u_dist u) (Num 20)" by blast
      have "js_le (u_dist ?nearest) (Num 20)"
        using js_le_mono_ord [of "u_dist u" "u_dist ?nearest" 20] u ord ordn near2 by blast
      with False show False by simp
    qed
    with ch first show ?thesis by (auto simp: notAfter_def)
  qed
qed

theorem chooseCandidate_rule_witness:
  "dedup twoRoofs \<noteq> [] \<and>
   chooseCandidate (map (attachDist 2538000 1152000) (dedup twoRoofs)) =
     Some \<lparr>u_attrs = attrsA, u_f = 50, u_s = 0, u_geom = Some (GeomPoint 2538003 1152004),
           u_dist = Num 5\<rparr> \<and>
   chosenAttrs 2538000 1152000 twoRoofs = attrsA"
proof -
  have ne: "dedup twoRoofs \<noteq> []"
    using dedup_twoRoofs by auto
  have ch: "chooseCandidate (map (attachDist 2538000 1152000) (dedup twoRoofs)) =
     Some \<lparr>u_attrs = attrsA, u_f = 50, u_s = 0, u_geom = Some (GeomPoint 2538003 1152004),
           u_dist = Num 5\<rparr>"
    using chooseCandidate_rule [OF ne, of 2538000 1152000]
    unfolding dedup_twoRoofs by auto
  show ?thesis
    using ne ch by (simp add: chosenAttrs_def)
qed

text \<open>
  C8 (amended). Early stop: whenever the completion of a point leaves the shared sample
  list with at least 4 values, a positive mean and a coefficient of variation below
  0.05, the stop flag is set and that worker terminates. Once the flag is set no worker
  starts another point: the points processed from then on are exactly those already in
  flight, which complete and add their samples, so that the final sample list is the
  list at that moment followed by the samples of the points in flight, in the order of
  their completion. For the sample stream 1000, 1010, 995,
  1005 met by a single worker, sampling stops after exactly these 4 values although five
  grid points remain unvisited: eight requests are issued and the result is 1003.
\<close>

theorem early_stop_in_flight:
  "(k < length (workers ss) \<and> workers ss ! k = InFlight pt rest \<and>
      stableSamples (samples (completePoint net k ss)) \<longrightarrow>
      stopEarly (completePoint net k ss) \<and> workers (completePoint net k ss) ! k = Finished) \<and>
   (stopEarly ss \<longrightarrow>
      done_count (runWorkers net sched ss)
        = done_count ss + length (filter isInFlight (workers ss))) \<and>
   (stopEarly ss \<longrightarrow>
      (\<exists>added. samples (runWorkers net sched ss) = samples ss @ added \<and>
         mset added = mset (concat (map (inFlightSample net) (workers ss))))) \<and>
   samples (runWorkers gridNet [] (initSession 1 (candidatePts slantedRoof 3)))
     = [1000, 1010, 995, 1005] \<and>
   done_count (runWorkers gridNet [] (initSession 1 (candidatePts slantedRoof 3))) = 4 \<and>
   total_pts (runWorkers gridNet [] (initSession 1 (candidatePts slantedRoof 3))) = 9 \<and>
   fst (samplePolygonRadiation gridNet [] emptyStore (Some slantedRoof) 3 1) = Inr (Some 1003) \<and>
   length (netlog (snd (samplePolygonRadiation gridNet [] emptyStore (Some slantedRoof) 3 1))) = 8"
  using completePoint_sets_flag [of k ss pt rest net] stopped_run [of ss net sched]
    stopped_samples [of ss net sched] run_one top_one
  by blast

theorem early_stop_in_flight_witness:
  "stableSamples (samples (completePoint gridNet 3 threeDone)) \<and>
   stopEarly (completePoint gridNet 3 threeDone) \<and>
   workers (completePoint gridNet 3 threeDone) ! 3 = Finished \<and>
   length (filter isInFlight (workers (completePoint gridNet 3 threeDone))) = 3 \<and>
   done_count (runWorkers gridNet [] (completePoint gridNet 3 threeDone)) = 7 \<and>
   concat (map (inFlightSample gridNet) (workers (completePoint gridNet 3 threeDone)))
     = [1002, 1002, 1002] \<and>
   samples (runWorkers gridNet [] (completePoint gridNet 3 threeDone))
     = [1000, 1010, 995, 1005, 1002, 1002, 1002]"
proof -
  have k: "(3::nat) < length (workers threeDone)"
    by (simp add: threeDone_fields)
  have w: "workers threeDone ! 3 = InFlight \<lparr>lat = 0.014, lng = - 0.005\<rparr> [\<lparr>lat = 0.017, lng = 0\<rparr>]"
    by (simp add: threeDone_fields)
  have s: "stableSamples (samples (completePoint gridNet 3 threeDone))"
    by (simp add: fourDone_fields stable_stream)
  have f: "length (filter isInFlight (workers (completePoint gridNet 3 threeDone))) = 3"
    by (simp add: fourDone_fields)
  have d: "done_count (completePoint gridNet 3 threeDone) = 4"
    by (simp add: fourDone_fields)
  note first = early_stop_in_flight [of 3 threeDone "\<lparr>lat = 0.014, lng = - 0.005\<rparr>"
        "[\<lparr>lat = 0.017, lng = 0\<rparr>]" gridNet "[]"]
  note after = early_stop_in_flight [of 0 "completePoint gridNet 3 threeDone"
        "\<lparr>lat = 0.014, lng = 0\<rparr>" "[\<lparr>lat = 0.017, lng = 0.005\<rparr>]" gridNet "[]"]
  have flag: "stopEarly (completePoint gridNet 3 threeDone)"
    using first k w s by blast
  obtain added where a:
    "samples (runWorkers gridNet [] (completePoint gridNet 3 threeDone))
       = samples (completePoint gridNet 3 threeDone) @ added"
    "mset added = mset (concat (map (inFlightSample gridNet)
                     (workers (completePoint gridNet 3 threeDone))))"
    using after flag by blast
  have "mset added = mset [1002, 1002, 1002::real]"
    using a(2) by (simp add: fourDone_inFlight)
  then have "set added \<subseteq> {1002}" "length added = 3"
    using mset_eq_setD mset_eq_length by fastforce+
  then have "added = replicate 3 1002"
    by (intro replicate_eqI) auto
  then have added: "added = [1002, 1002, 1002]"
    by (simp add: numeral_3_eq_3)
  have four: "samples (completePoint gridNet 3 threeDone) = [1000, 1010, 995, 1005]"
    by (simp add: fourDone_fields)
  have run: "samples (runWorkers gridNet [] (completePoint gridNet 3 threeDone))
     = [1000, 1010, 995, 1005, 1002, 1002, 1002]"
    unfolding a(1) four added by simp
  show ?thesis
    using first after k w s f d run fourDone_inFlight by simp
qed

text \<open>
  C8 as stated fails: with the default four workers on the same nine grid points, whose
  first four completions give 1000, 1010, 995, 1005, the three points in flight at that
  moment complete as well. Seven values are sampled from fourteen requests, and the
  result is 1002.
\<close>

theorem early_stop_seven_values:
  "samples (runWorkers gridNet [0, 1, 2, 3] (initSession 4 (candidatePts slantedRoof 3)))
     = [1000, 1010, 995, 1005, 1002, 1002, 1002] \<and>
   done_count (runWorkers gridNet [0, 1, 2, 3] (initSession 4 (candidatePts slantedRoof 3))) = 7 \<and>
   fst (samplePolygonRadiation gridNet [0, 1, 2, 3] emptyStore (Some slantedRoof) 3 4)
     = Inr (Some 1002) \<and>
   length (netlog (snd (samplePolygonRadiation gridNet [0, 1, 2, 3] emptyStore
                          (Some slantedRoof) 3 4))) = 14"
  using run_four top_four by simp

text \<open>
  C9 (the program evaluated at a failing input). The square is sampled in a fresh
  session: the result is 954, from two requests. After \<open>clearPolygonSampleCache\<close> the
  module's cache and the stored item are empty, yet the next call returns 954 again and
  issues no request: the value comes from \<^verbatim>\<open>globalThis.__polygonSampleCache\<close>, which the
  clear operation leaves as it is. Without the clear, the second call returns 954 from
  the module's cache and leaves the state as it is.
\<close>

theorem clear_keeps_global_cache:
  "fst (samplePolygonRadiation roofNet [] emptyStore (Some lausanneSquare) 3 4) = Inr (Some 954) \<and>
   length (netlog afterFirst) = 2 \<and>
   polygonSampleCache afterClear = Map.empty \<and>
   persisted afterClear = None \<and>
   fst (samplePolygonRadiation roofNet [] afterClear (Some lausanneSquare) 3 4) = Inr (Some 954) \<and>
   netlog (snd (samplePolygonRadiation roofNet [] afterClear (Some lausanneSquare) 3 4))
     = netlog afterFirst \<and>
   samplePolygonRadiation roofNet [] afterFirst (Some lausanneSquare) 3 4
     = (Inr (Some 954), afterFirst)"
proof -
  have a: "length (netlog afterFirst) = 2"
    by (simp add: afterFirst_eq storeResult_def saveCacheToLocalStorage_def
        emptyStore_def Let_def)
  show ?thesis
    using a afterClear_caches second_call [of "[]"] cached_call [of "[]"]
    by (simp add: first_call)
qed



end
